theory Spec2Isabelle
  imports Complex_Main "HOL-Library.Word"
begin

section \<open>Binary64 floating point, as Go's float64\<close>

text \<open>
  The amount computation of the order builder works on Go \<^verbatim>\<open>float64\<close> values.  A value
  is modelled by what it denotes: a rational number, the negative zero, an infinity or
  a NaN.  Every arithmetic operation computes the exact rational result and rounds it
  once, to the nearest value with a 53-bit significand, ties to even, with gradual
  underflow below \<open>2^-1022\<close> and overflow to an infinity from \<open>2^1024\<close> on.  Each
  source operation is rounded on its own (no fused multiply-add), as the compiler does
  on amd64.
\<close>

datatype f64 = Finite rat | NegZero | PosInf | NegInf | NaN

definition pow2 :: "int \<Rightarrow> rat" where
  "pow2 k = (if 0 \<le> k then 2 ^ nat k else 1 / 2 ^ nat (- k))"

fun bit_length :: "nat \<Rightarrow> nat" where
  "bit_length n = (if n = 0 then 0 else Suc (bit_length (n div 2)))"

declare bit_length.simps [simp del]

text \<open>\<open>ilog2 a\<close> is the exponent \<open>e\<close> with \<open>2^e \<le> a < 2^(e+1)\<close>, for \<open>a > 0\<close>.\<close>

definition ilog2 :: "rat \<Rightarrow> int" where
  "ilog2 a =
     (if 1 \<le> a then int (bit_length (nat \<lfloor>a\<rfloor>)) - 1
      else - int (bit_length (nat (\<lceil>1 / a\<rceil> - 1))))"

definition round_half_even :: "rat \<Rightarrow> int" where
  "round_half_even q =
     (let f = \<lfloor>q\<rfloor>; d = q - of_int f
      in if d < 1 / 2 then f
         else if 1 / 2 < d then f + 1
         else if even f then f else f + 1)"

text \<open>Rounding a magnitude to the nearest multiple of \<open>2^k\<close>, ties to even.\<close>

definition round_at :: "int \<Rightarrow> rat \<Rightarrow> rat" where
  "round_at k a = of_int (round_half_even (a / pow2 k)) * pow2 k"

definition f64_zero :: "bool \<Rightarrow> f64" where
  "f64_zero neg = (if neg then NegZero else Finite 0)"

definition f64_inf :: "bool \<Rightarrow> f64" where
  "f64_inf neg = (if neg then NegInf else PosInf)"

text \<open>\<open>f64_round neg a\<close>: the double nearest to the magnitude \<open>a \<ge> 0\<close>, with sign \<open>neg\<close>.\<close>

definition f64_round :: "bool \<Rightarrow> rat \<Rightarrow> f64" where
  "f64_round neg a =
     (if a \<le> 0 then f64_zero neg
      else let v = round_at (max (ilog2 a - 52) (- 1074)) a
           in if v = 0 then f64_zero neg
              else if ilog2 v < 1024 then Finite (if neg then - v else v)
              else f64_inf neg)"

text \<open>A decimal constant of the source, or a parsed decimal: the nearest double.\<close>

definition f64_lit :: "rat \<Rightarrow> f64" where
  "f64_lit r = f64_round (r < 0) \<bar>r\<bar>"

definition f64_sign :: "f64 \<Rightarrow> bool" where
  "f64_sign x = (case x of Finite r \<Rightarrow> r < 0 | NegZero \<Rightarrow> True | PosInf \<Rightarrow> False
                 | NegInf \<Rightarrow> True | NaN \<Rightarrow> False)"

definition f64_mag :: "f64 \<Rightarrow> rat" where
  "f64_mag x = (case x of Finite r \<Rightarrow> \<bar>r\<bar> | _ \<Rightarrow> 0)"

definition f64_val :: "f64 \<Rightarrow> rat" where
  "f64_val x = (case x of Finite r \<Rightarrow> r | _ \<Rightarrow> 0)"

definition is_nan :: "f64 \<Rightarrow> bool" where
  "is_nan x = (case x of NaN \<Rightarrow> True | _ \<Rightarrow> False)"

definition is_inf :: "f64 \<Rightarrow> bool" where
  "is_inf x = (case x of PosInf \<Rightarrow> True | NegInf \<Rightarrow> True | _ \<Rightarrow> False)"

definition is_zero :: "f64 \<Rightarrow> bool" where
  "is_zero x = (case x of Finite r \<Rightarrow> r = 0 | NegZero \<Rightarrow> True | _ \<Rightarrow> False)"

definition f64_mul :: "f64 \<Rightarrow> f64 \<Rightarrow> f64" where
  "f64_mul x y =
     (if is_nan x \<or> is_nan y then NaN
      else if is_inf x \<or> is_inf y then
        (if is_zero x \<or> is_zero y then NaN else f64_inf (f64_sign x \<noteq> f64_sign y))
      else f64_round (f64_sign x \<noteq> f64_sign y) (f64_mag x * f64_mag y))"

definition f64_div :: "f64 \<Rightarrow> f64 \<Rightarrow> f64" where
  "f64_div x y =
     (if is_nan x \<or> is_nan y then NaN
      else if is_inf x then
        (if is_inf y then NaN else f64_inf (f64_sign x \<noteq> f64_sign y))
      else if is_inf y then f64_zero (f64_sign x \<noteq> f64_sign y)
      else if is_zero y then
        (if is_zero x then NaN else f64_inf (f64_sign x \<noteq> f64_sign y))
      else f64_round (f64_sign x \<noteq> f64_sign y) (f64_mag x / f64_mag y))"

definition f64_add :: "f64 \<Rightarrow> f64 \<Rightarrow> f64" where
  "f64_add x y =
     (if is_nan x \<or> is_nan y then NaN
      else if is_inf x then (if is_inf y \<and> f64_sign x \<noteq> f64_sign y then NaN else x)
      else if is_inf y then y
      else let s = f64_val x + f64_val y
           in if s = 0 then f64_zero (f64_sign x \<and> f64_sign y)
              else f64_round (s < 0) \<bar>s\<bar>)"

definition f64_neg :: "f64 \<Rightarrow> f64" where
  "f64_neg x = (case x of Finite r \<Rightarrow> (if r = 0 then NegZero else Finite (- r))
                | NegZero \<Rightarrow> Finite 0 | PosInf \<Rightarrow> NegInf | NegInf \<Rightarrow> PosInf | NaN \<Rightarrow> NaN)"

definition f64_sub :: "f64 \<Rightarrow> f64 \<Rightarrow> f64" where
  "f64_sub x y = f64_add x (f64_neg y)"

text \<open>Comparisons: false as soon as one side is a NaN; the two zeros are equal.\<close>

definition f64_le :: "f64 \<Rightarrow> f64 \<Rightarrow> bool" where
  "f64_le x y =
     (if is_nan x \<or> is_nan y then False
      else if x = NegInf \<or> y = PosInf then True
      else if x = PosInf \<or> y = NegInf then False
      else f64_val x \<le> f64_val y)"

definition f64_ge :: "f64 \<Rightarrow> f64 \<Rightarrow> bool" where
  "f64_ge x y = f64_le y x"

definition f64_lt :: "f64 \<Rightarrow> f64 \<Rightarrow> bool" where
  "f64_lt x y =
     (if is_nan x \<or> is_nan y then False
      else if x = PosInf \<or> y = NegInf then False
      else if x = NegInf \<or> y = PosInf then True
      else f64_val x < f64_val y)"

text \<open>
  The conversion \<^verbatim>\<open>int(x)\<close> of a float64 to the 64-bit \<^verbatim>\<open>int\<close> drops the fraction
  (towards zero).  When the truncated value is not an int64, or \<open>x\<close> is an infinity or a
  NaN, the language leaves the result to the implementation: the model has \<open>None\<close>
  there.
\<close>

definition f64_to_int :: "f64 \<Rightarrow> int option" where
  "f64_to_int x =
     (case x of
        Finite r \<Rightarrow>
          (let t = (if 0 \<le> r then \<lfloor>r\<rfloor> else - \<lfloor>- r\<rfloor>)
           in if - (2 ^ 63) \<le> t \<and> t < 2 ^ 63 then Some t else None)
      | NegZero \<Rightarrow> Some 0
      | _ \<Rightarrow> None)"

text \<open>\<^verbatim>\<open>float64(n)\<close> of an integer: the nearest double.\<close>

definition f64_of_int :: "int \<Rightarrow> f64" where
  "f64_of_int n = f64_round (n < 0) (of_int \<bar>n\<bar>)"

text \<open>Addition on int64 wraps around.\<close>

definition wrap64 :: "int \<Rightarrow> int" where
  "wrap64 n = (n + 2 ^ 63) mod 2 ^ 64 - 2 ^ 63"

section \<open>Formatting and the arbitrary-precision library\<close>

datatype error =
    InvalidSide
  | InvalidPrice
  | AuthRequired
  | OptionsUnresolved
  | UnsupportedChain
  | InvalidCredentialSecret
  | MarshalFailure
  | SignFailure
  | Panic
  | Unspecified

text \<open>
  \<open>Panic\<close> stands for a run-time panic of the Go program, \<open>Unspecified\<close> for a step
  whose result the language leaves to the implementation (a float to integer conversion
  out of range); the other errors are the \<^verbatim>\<open>error\<close> values the functions return.
\<close>

definition digit_char :: "nat \<Rightarrow> char" where
  "digit_char d = ''0123456789'' ! (d mod 10)"

fun show_nat :: "nat \<Rightarrow> string" where
  "show_nat n = (if n < 10 then [digit_char n] else show_nat (n div 10) @ [digit_char (n mod 10)])"

declare show_nat.simps [simp del]

text \<open>\<^verbatim>\<open>fmt.Sprintf("%d", n)\<close> and \<^verbatim>\<open>(*big.Int).String\<close> of a non-nil integer.\<close>

definition show_int :: "int \<Rightarrow> string" where
  "show_int n = (if n < 0 then CHR ''-'' # show_nat (nat (- n)) else show_nat (nat n))"

text \<open>
  \<^verbatim>\<open>fmt.Sprintf("%.10f", x)\<close>: the exact value rounded to ten decimals (ties to even),
  the sign, the integer digits, a point and ten fraction digits.
\<close>

definition fmt_f10 :: "f64 \<Rightarrow> string" where
  "fmt_f10 x =
     (case x of
        NaN \<Rightarrow> ''NaN''
      | PosInf \<Rightarrow> ''+Inf''
      | NegInf \<Rightarrow> ''-Inf''
      | NegZero \<Rightarrow> ''-0.0000000000''
      | Finite r \<Rightarrow>
          (let n = nat (round_half_even (\<bar>r\<bar> * 10 ^ 10));
               fs = show_nat (n mod 10 ^ 10)
           in (if r < 0 then ''-'' else []) @ show_nat (n div 10 ^ 10) @ ''.''
              @ replicate (10 - length fs) (CHR ''0'') @ fs))"

text \<open>
  A \<^verbatim>\<open>*big.Int\<close> is \<open>None\<close> when the pointer is nil.  \<^verbatim>\<open>big.NewFloat\<close> panics on a NaN
  and has 53 bits of precision; the product with \<open>10^6\<close> is rounded to 53 bits (the
  exponent of a \<^verbatim>\<open>big.Float\<close> is not bounded here); \<^verbatim>\<open>Int\<close> truncates towards zero and
  gives nil for an infinity.
\<close>

type_synonym bigint = "int option"

definition bigfloat_mul53 :: "rat \<Rightarrow> rat \<Rightarrow> rat" where
  "bigfloat_mul53 a b = (let c = a * b in if c = 0 then 0 else round_at (ilog2 c - 52) c)"

section \<open>Package utils: rounding helpers\<close>

definition ToTokenDecimals :: "f64 \<Rightarrow> error + bigint" where
  "ToTokenDecimals amount =
     (case amount of
        NaN \<Rightarrow> Inl Panic
      | PosInf \<Rightarrow> Inr None
      | NegInf \<Rightarrow> Inr None
      | NegZero \<Rightarrow> Inr (Some 0)
      | Finite r \<Rightarrow>
          (let m = \<lfloor>bigfloat_mul53 \<bar>r\<bar> 1000000\<rfloor>
           in Inr (Some (if r < 0 then - m else m))))"

text \<open>The loop \<^verbatim>\<open>for i := 0; i < decimals; i++ { multiplier *= 10 }\<close>.\<close>

fun multiplier_loop :: "nat \<Rightarrow> f64 \<Rightarrow> f64" where
  "multiplier_loop 0 multiplier = multiplier"
| "multiplier_loop (Suc n) multiplier = multiplier_loop n (f64_mul multiplier (f64_lit 10))"

definition multiplier_of :: "int \<Rightarrow> f64" where
  "multiplier_of decimals = multiplier_loop (nat decimals) (f64_lit 1)"

definition RoundDown :: "f64 \<Rightarrow> int \<Rightarrow> f64 option" where
  "RoundDown v decimals =
     (let multiplier = multiplier_of decimals
      in case f64_to_int (f64_mul v multiplier) of
           None \<Rightarrow> None
         | Some t \<Rightarrow> Some (f64_div (f64_of_int t) multiplier))"

definition RoundUp :: "f64 \<Rightarrow> int \<Rightarrow> f64 option" where
  "RoundUp v decimals =
     (let multiplier = multiplier_of decimals
      in case f64_to_int (f64_mul v multiplier) of
           None \<Rightarrow> None
         | Some t \<Rightarrow> Some (f64_div (f64_of_int (wrap64 (t + 1))) multiplier))"

definition RoundNormal :: "f64 \<Rightarrow> int \<Rightarrow> f64 option" where
  "RoundNormal v decimals =
     (let multiplier = multiplier_of decimals
      in case f64_to_int (f64_add (f64_mul v multiplier) (f64_lit (1 / 2))) of
           None \<Rightarrow> None
         | Some t \<Rightarrow> Some (f64_div (f64_of_int t) multiplier))"

text \<open>The first loop of \<^verbatim>\<open>DecimalPlaces\<close> drops the trailing zeros of the string.\<close>

function strip_zeros :: "string \<Rightarrow> string" where
  "strip_zeros str =
     (if length str > 0 \<and> last str = CHR ''0'' then strip_zeros (butlast str) else str)"
  by pat_completeness auto
termination
  by (relation "measure length") auto

declare strip_zeros.simps [simp del]

text \<open>The second loop looks for the point; \<open>i\<close> is the index, \<open>n\<close> the length.\<close>

fun find_point :: "string \<Rightarrow> int \<Rightarrow> int \<Rightarrow> int" where
  "find_point [] i n = 0"
| "find_point (c # cs) i n = (if c = CHR ''.'' then n - i - 1 else find_point cs (i + 1) n)"

definition DecimalPlaces :: "f64 \<Rightarrow> int" where
  "DecimalPlaces v = (let str = strip_zeros (fmt_f10 v) in find_point str 0 (int (length str)))"

type_synonym TickSize = string

definition TickSize01 :: TickSize where "TickSize01 = ''0.1''"
definition TickSize001 :: TickSize where "TickSize001 = ''0.01''"
definition TickSize0001 :: TickSize where "TickSize0001 = ''0.001''"
definition TickSize00001 :: TickSize where "TickSize00001 = ''0.0001''"

definition ParseTickSize :: "TickSize \<Rightarrow> f64" where
  "ParseTickSize tickSize =
     (if tickSize = TickSize01 then f64_lit (1 / 10)
      else if tickSize = TickSize001 then f64_lit (1 / 100)
      else if tickSize = TickSize0001 then f64_lit (1 / 1000)
      else if tickSize = TickSize00001 then f64_lit (1 / 10000)
      else f64_lit (1 / 100))"

definition ValidatePrice :: "f64 \<Rightarrow> TickSize \<Rightarrow> bool" where
  "ValidatePrice price tickSize =
     (let tickSizeFloat = ParseTickSize tickSize
      in f64_ge price tickSizeFloat \<and> f64_le price (f64_sub (f64_lit 1) tickSizeFloat))"

record RoundConfig =
  Price :: int
  Size :: int
  Amount :: int

definition GetRoundingConfig :: "TickSize \<Rightarrow> RoundConfig" where
  "GetRoundingConfig tickSize =
     (if tickSize = TickSize01 then \<lparr>Price = 1, Size = 2, Amount = 3\<rparr>
      else if tickSize = TickSize001 then \<lparr>Price = 2, Size = 2, Amount = 4\<rparr>
      else if tickSize = TickSize0001 then \<lparr>Price = 3, Size = 2, Amount = 5\<rparr>
      else if tickSize = TickSize00001 then \<lparr>Price = 4, Size = 2, Amount = 6\<rparr>
      else \<lparr>Price = 2, Size = 2, Amount = 4\<rparr>)"

section \<open>Package orderbuilder: the amounts of an order\<close>

type_synonym OrderSide = string

definition BUY :: OrderSide where "BUY = ''BUY''"
definition SELL :: OrderSide where "SELL = ''SELL''"

definition to_amounts :: "int \<Rightarrow> f64 \<Rightarrow> f64 \<Rightarrow> error + int \<times> bigint \<times> bigint" where
  "to_amounts sideInt rawMakerAmt rawTakerAmt =
     (case ToTokenDecimals rawMakerAmt of
        Inl e \<Rightarrow> Inl e
      | Inr makerAmount \<Rightarrow>
          (case ToTokenDecimals rawTakerAmt of
             Inl e \<Rightarrow> Inl e
           | Inr takerAmount \<Rightarrow> Inr (sideInt, makerAmount, takerAmount)))"

definition getOrderAmounts ::
    "OrderSide \<Rightarrow> f64 \<Rightarrow> f64 \<Rightarrow> TickSize \<Rightarrow> error + int \<times> bigint \<times> bigint" where
  "getOrderAmounts side size' price tickSize =
     (let roundConfig = GetRoundingConfig tickSize;
          rawPrice = RoundNormal price (Price roundConfig)
      in if side = BUY then
           (case (RoundDown size' (Size roundConfig), rawPrice) of
              (Some rawTakerAmt, Some rawPrice) \<Rightarrow>
                (let rawMakerAmt = f64_mul rawTakerAmt rawPrice
                 in case (if DecimalPlaces rawMakerAmt > Amount roundConfig then
                            (case RoundUp rawMakerAmt (Amount roundConfig + 4) of
                               None \<Rightarrow> None
                             | Some rawMakerAmt \<Rightarrow>
                                 if DecimalPlaces rawMakerAmt > Amount roundConfig
                                 then RoundDown rawMakerAmt (Amount roundConfig)
                                 else Some rawMakerAmt)
                          else Some rawMakerAmt) of
                      Some rawMakerAmt \<Rightarrow> to_amounts 0 rawMakerAmt rawTakerAmt
                    | None \<Rightarrow> Inl Unspecified)
            | _ \<Rightarrow> Inl Unspecified)
         else if side = SELL then
           (case (RoundDown size' (Size roundConfig), rawPrice) of
              (Some rawMakerAmt, Some rawPrice) \<Rightarrow>
                (let rawTakerAmt = f64_mul rawMakerAmt rawPrice
                 in case (if DecimalPlaces rawTakerAmt > Amount roundConfig then
                            (case RoundUp rawTakerAmt (Amount roundConfig + 4) of
                               None \<Rightarrow> None
                             | Some rawTakerAmt \<Rightarrow>
                                 if DecimalPlaces rawTakerAmt > Amount roundConfig
                                 then RoundDown rawTakerAmt (Amount roundConfig)
                                 else Some rawTakerAmt)
                          else Some rawTakerAmt) of
                      Some rawTakerAmt \<Rightarrow> to_amounts 1 rawMakerAmt rawTakerAmt
                    | None \<Rightarrow> Inl Unspecified)
            | _ \<Rightarrow> Inl Unspecified)
         else Inl InvalidSide)"

definition getMarketOrderAmounts ::
    "OrderSide \<Rightarrow> f64 \<Rightarrow> f64 \<Rightarrow> TickSize \<Rightarrow> error + int \<times> bigint \<times> bigint" where
  "getMarketOrderAmounts side amount price tickSize =
     (let roundConfig = GetRoundingConfig tickSize;
          rawPrice = RoundNormal price (Price roundConfig)
      in if side = BUY then
           (case (RoundDown amount (Size roundConfig), rawPrice) of
              (Some rawMakerAmt, Some rawPrice) \<Rightarrow>
                (let rawTakerAmt = f64_div rawMakerAmt rawPrice
                 in case (if DecimalPlaces rawTakerAmt > Amount roundConfig then
                            (case RoundUp rawTakerAmt (Amount roundConfig + 4) of
                               None \<Rightarrow> None
                             | Some rawTakerAmt \<Rightarrow>
                                 if DecimalPlaces rawTakerAmt > Amount roundConfig
                                 then RoundDown rawTakerAmt (Amount roundConfig)
                                 else Some rawTakerAmt)
                          else Some rawTakerAmt) of
                      Some rawTakerAmt \<Rightarrow> to_amounts 0 rawMakerAmt rawTakerAmt
                    | None \<Rightarrow> Inl Unspecified)
            | _ \<Rightarrow> Inl Unspecified)
         else if side = SELL then
           (case (RoundDown amount (Size roundConfig), rawPrice) of
              (Some rawMakerAmt, Some rawPrice) \<Rightarrow>
                (let rawTakerAmt = f64_mul rawMakerAmt rawPrice
                 in case (if DecimalPlaces rawTakerAmt > Amount roundConfig then
                            (case RoundUp rawTakerAmt (Amount roundConfig + 4) of
                               None \<Rightarrow> None
                             | Some rawTakerAmt \<Rightarrow>
                                 if DecimalPlaces rawTakerAmt > Amount roundConfig
                                 then RoundDown rawTakerAmt (Amount roundConfig)
                                 else Some rawTakerAmt)
                          else Some rawTakerAmt) of
                      Some rawTakerAmt \<Rightarrow> to_amounts 1 rawMakerAmt rawTakerAmt
                    | None \<Rightarrow> Inl Unspecified)
            | _ \<Rightarrow> Inl Unspecified)
         else Inl InvalidSide)"

section \<open>Package utils: the typed-data encoder\<close>

type_synonym byte = "8 word"
type_synonym bytes = "byte list"

text \<open>A \<^verbatim>\<open>common.Address\<close> is an array of 20 bytes.\<close>

typedef address = "{bs :: 8 word list. length bs = 20}"
  by (rule exI [of _ "replicate 20 0"]) simp

text \<open>
  The primitives of go-ethereum that the encoder and the signer call are parameters of
  the model: the Keccak-256 hash, the parser of a hexadecimal address, the checksummed
  rendering of an address, and the ECDSA signing primitive \<^verbatim>\<open>crypto.Sign\<close> on a key of
  type \<open>'k\<close> (\<open>None\<close> when it returns an error).
\<close>

record 'k primitives =
  Keccak256 :: "bytes \<Rightarrow> bytes"
  HexToAddress :: "string \<Rightarrow> address"
  AddressHex :: "address \<Rightarrow> string"
  EcdsaSign :: "bytes \<Rightarrow> 'k \<Rightarrow> bytes option"

definition bytes_of :: "string \<Rightarrow> bytes" where
  "bytes_of str = map of_char str"

definition bind_err :: "error + 'a \<Rightarrow> ('a \<Rightarrow> error + 'b) \<Rightarrow> error + 'b" where
  "bind_err m f = (case m of Inl e \<Rightarrow> Inl e | Inr x \<Rightarrow> f x)"

definition CreateEIP712Hash :: "'k primitives \<Rightarrow> bytes \<Rightarrow> bytes \<Rightarrow> bytes" where
  "CreateEIP712Hash L domainSeparator structHash =
     (let prefix = [0x19, 0x01];
          data = [] @ prefix @ domainSeparator @ structHash
      in Keccak256 L data)"

text \<open>The bytes of a natural number, most significant first, none for zero.\<close>

fun be_bytes :: "nat \<Rightarrow> bytes" where
  "be_bytes n = (if n = 0 then [] else be_bytes (n div 256) @ [of_nat (n mod 256)])"

declare be_bytes.simps [simp del]

text \<open>
  \<^verbatim>\<open>x.FillBytes(buf)\<close> with a buffer of \<open>n\<close> bytes: the absolute value of \<open>x\<close>,
  big-endian, extended with zeros on the left; a panic when it does not fit, or when
  \<open>x\<close> is a nil pointer.
\<close>

definition FillBytes :: "bigint \<Rightarrow> nat \<Rightarrow> error + bytes" where
  "FillBytes x n =
     (case x of
        None \<Rightarrow> Inl Panic
      | Some v \<Rightarrow>
          (let bs = be_bytes (nat \<bar>v\<bar>)
           in if length bs > n then Inl Panic
              else Inr (replicate (n - length bs) 0 @ bs)))"

text \<open>
  \<^verbatim>\<open>z.SetString(s, 10)\<close>: an optional sign and at least one decimal digit, nothing
  else.  When the string is not a number the library leaves the value of \<open>z\<close>
  undefined; the encoder does not look at the result, so the model stops with
  \<open>Unspecified\<close> there.
\<close>

definition is_digit :: "char \<Rightarrow> bool" where
  "is_digit c = (c \<in> set ''0123456789'')"

definition digit_value :: "char \<Rightarrow> nat" where
  "digit_value c = of_char c - 48"

fun digits_value :: "nat \<Rightarrow> string \<Rightarrow> nat" where
  "digits_value acc [] = acc"
| "digits_value acc (c # cs) = digits_value (acc * 10 + digit_value c) cs"

definition SetString :: "string \<Rightarrow> int option" where
  "SetString str =
     (let neg = (str \<noteq> [] \<and> hd str = CHR ''-'');
          ds = (if str \<noteq> [] \<and> (hd str = CHR ''-'' \<or> hd str = CHR ''+'') then tl str else str)
      in if ds = [] \<or> \<not> list_all is_digit ds then None
         else Some (if neg then - int (digits_value 0 ds) else int (digits_value 0 ds)))"

text \<open>\<^verbatim>\<open>copy(dst, src)\<close> writes the first \<open>min (len dst) (len src)\<close> bytes of \<open>src\<close>.\<close>

definition go_copy :: "bytes \<Rightarrow> bytes \<Rightarrow> bytes" where
  "go_copy dst src = take (length dst) src @ drop (length src) dst"

text \<open>
  The three encodings the encoder writes out field by field:
  \<^verbatim>\<open>b := make([]byte, 32); copy(b[12:], addr.Bytes())\<close> for an address,
  \<^verbatim>\<open>z.SetString(s, 10); z.FillBytes(make([]byte, 32))\<close> for a decimal string, and
  \<^verbatim>\<open>b := make([]byte, 32); b[31] = byte(v)\<close> for a small integer.
\<close>

definition address_field :: "'k primitives \<Rightarrow> string \<Rightarrow> bytes" where
  "address_field L hex =
     (let addr = HexToAddress L hex;
          buf = replicate 32 0
      in take 12 buf @ go_copy (drop 12 buf) (Rep_address addr))"

definition string_field :: "string \<Rightarrow> error + bytes" where
  "string_field str =
     (case SetString str of
        None \<Rightarrow> Inl Unspecified
      | Some v \<Rightarrow> FillBytes (Some v) 32)"

definition uint8_field :: "int \<Rightarrow> bytes" where
  "uint8_field v = (replicate 32 0)[31 := of_int v]"

record OrderData =
  od_Maker :: string
  od_Taker :: string
  od_TokenID :: string
  od_MakerAmount :: bigint
  od_TakerAmount :: bigint
  od_Side :: int
  od_FeeRateBps :: string
  od_Nonce :: string
  od_Signer :: string
  od_Expiration :: string
  od_SignatureType :: int

definition order_type_string :: string where
  "order_type_string = ''Order(uint256 salt,address maker,address signer,address taker,uint256 tokenId,uint256 makerAmount,uint256 takerAmount,uint256 expiration,uint256 nonce,uint256 feeRateBps,uint8 side,uint8 signatureType)''"

definition CreateOrderStructHash :: "'k primitives \<Rightarrow> OrderData \<Rightarrow> int \<Rightarrow> error + bytes" where
  "CreateOrderStructHash L orderData salt =
     (let orderTypeHash = Keccak256 L (bytes_of order_type_string)
      in bind_err (FillBytes (Some salt) 32) (\<lambda>saltBytes.
         let makerBytes = address_field L (od_Maker orderData);
             signerBytes = address_field L (od_Signer orderData);
             takerBytes = address_field L (od_Taker orderData)
         in bind_err (string_field (od_TokenID orderData)) (\<lambda>tokenIdBytes.
            bind_err (FillBytes (od_MakerAmount orderData) 32) (\<lambda>makerAmountBytes.
            bind_err (FillBytes (od_TakerAmount orderData) 32) (\<lambda>takerAmountBytes.
            bind_err (string_field (od_Expiration orderData)) (\<lambda>expirationBytes.
            bind_err (string_field (od_Nonce orderData)) (\<lambda>nonceBytes.
            bind_err (string_field (od_FeeRateBps orderData)) (\<lambda>feeRateBytes.
            let sideBytes = uint8_field (od_Side orderData);
                sigTypeBytes = uint8_field (od_SignatureType orderData);
                encoded = [] @ orderTypeHash @ saltBytes @ makerBytes @ signerBytes
                  @ takerBytes @ tokenIdBytes @ makerAmountBytes @ takerAmountBytes
                  @ expirationBytes @ nonceBytes @ feeRateBytes @ sideBytes @ sigTypeBytes
            in Inr (Keccak256 L encoded)))))))))"

definition polymarket_domain_type_string :: string where
  "polymarket_domain_type_string =
     ''EIP712Domain(string name,string version,uint256 chainId,address verifyingContract)''"

definition CreatePolymarketDomain :: "'k primitives \<Rightarrow> int \<Rightarrow> string \<Rightarrow> error + bytes" where
  "CreatePolymarketDomain L chainID exchangeAddress =
     (let domainTypeHash = Keccak256 L (bytes_of polymarket_domain_type_string);
          nameHash = Keccak256 L (bytes_of ''Polymarket CTF Exchange'');
          versionHash = Keccak256 L (bytes_of ''1'')
      in bind_err (FillBytes (Some chainID) 32) (\<lambda>chainIDBytes.
         let exchangeBytes = address_field L exchangeAddress;
             domain = [] @ domainTypeHash @ nameHash @ versionHash @ chainIDBytes
               @ exchangeBytes
         in Inr (Keccak256 L domain)))"

definition CreateOrderEIP712Hash ::
    "'k primitives \<Rightarrow> OrderData \<Rightarrow> int \<Rightarrow> string \<Rightarrow> int \<Rightarrow> error + bytes" where
  "CreateOrderEIP712Hash L orderData salt exchangeAddress chainID =
     bind_err (CreatePolymarketDomain L chainID exchangeAddress) (\<lambda>domainSeparator.
     bind_err (CreateOrderStructHash L orderData salt) (\<lambda>orderStructHash.
     Inr (CreateEIP712Hash L domainSeparator orderStructHash)))"

section \<open>Package signer\<close>

record 'k Signer =
  s_privateKey :: 'k
  s_address :: address
  s_chainID :: int

text \<open>
  \<^verbatim>\<open>Sign\<close>: the error of the primitive is passed on; \<^verbatim>\<open>signature[64]\<close> panics on a
  slice shorter than 65 bytes; a last byte below 27 is raised by 27 (bytes wrap at 256).
\<close>

definition Sign :: "'k primitives \<Rightarrow> 'k Signer \<Rightarrow> bytes \<Rightarrow> error + bytes" where
  "Sign L s messageHash =
     (case EcdsaSign L messageHash (s_privateKey s) of
        None \<Rightarrow> Inl SignFailure
      | Some signature \<Rightarrow>
          if length signature \<le> 64 then Inl Panic
          else if signature ! 64 < 27
            then Inr (signature[64 := signature ! 64 + 27])
            else Inr signature)"

text \<open>\<^verbatim>\<open>fmt.Sprintf("0x%x", signature)\<close>: two lower-case hexadecimal digits a byte.\<close>

definition hex_digit :: "nat \<Rightarrow> char" where
  "hex_digit d = ''0123456789abcdef'' ! (d mod 16)"

definition hex_of_bytes :: "bytes \<Rightarrow> string" where
  "hex_of_bytes bs = concat (map (\<lambda>b. [hex_digit (unat b div 16), hex_digit (unat b mod 16)]) bs)"

definition signature_string :: "bytes \<Rightarrow> string" where
  "signature_string signature = ''0x'' @ hex_of_bytes signature"

section \<open>Package orderbuilder: building and signing an order\<close>

record OrderArgs =
  oa_TokenID :: string
  oa_Price :: f64
  oa_Size :: f64
  oa_Side :: OrderSide
  oa_FeeRateBps :: int
  oa_Nonce :: int
  oa_Expiration :: int
  oa_Taker :: string

record MarketOrderArgs =
  mo_TokenID :: string
  mo_Amount :: f64
  mo_Side :: OrderSide
  mo_Price :: f64
  mo_FeeRateBps :: int
  mo_Nonce :: int
  mo_Taker :: string
  mo_OrderType :: string

record CreateOrderOptions =
  opt_TickSize :: TickSize
  opt_NegRisk :: bool

record SignedOrder =
  so_Salt :: int
  so_Maker :: string
  so_Signer :: string
  so_Taker :: string
  so_TokenID :: string
  so_MakerAmount :: string
  so_TakerAmount :: string
  so_Expiration :: string
  so_Nonce :: string
  so_FeeRateBps :: string
  so_Side :: OrderSide
  so_SignatureType :: int
  so_Signature :: string

record 'k OrderBuilder =
  ob_signer :: "'k Signer"
  ob_signatureType :: int
  ob_funder :: string

text \<open>\<^verbatim>\<open>(*big.Int).String\<close>; a nil pointer prints as \<^verbatim>\<open><nil>\<close>.\<close>

definition bigint_String :: "bigint \<Rightarrow> string" where
  "bigint_String x = (case x of None \<Rightarrow> ''<nil>'' | Some v \<Rightarrow> show_int v)"

text \<open>
  The clock and the random source are inputs: \<open>now\<close> is \<^verbatim>\<open>time.Now().Unix()\<close> and
  \<open>rnd\<close> is the value \<^verbatim>\<open>rand.Float64()\<close> returns.  The performance metrics the
  builder appends to are left out: no function of the model reads them.
\<close>

definition new_salt :: "int \<Rightarrow> f64 \<Rightarrow> int option" where
  "new_salt now rnd = f64_to_int (f64_mul (f64_of_int now) rnd)"

definition signOrder ::
    "'k primitives \<Rightarrow> 'k OrderBuilder \<Rightarrow> OrderData \<Rightarrow> string \<Rightarrow> int \<Rightarrow> f64
      \<Rightarrow> error + SignedOrder" where
  "signOrder L ob orderData exchangeAddress now rnd =
     (case new_salt now rnd of
        None \<Rightarrow> Inl Unspecified
      | Some salt \<Rightarrow>
          bind_err (CreateOrderEIP712Hash L orderData salt exchangeAddress
                      (s_chainID (ob_signer ob))) (\<lambda>orderHash.
          bind_err (Sign L (ob_signer ob) orderHash) (\<lambda>signature.
          let sideStr = (if od_Side orderData = 0 then BUY else SELL)
          in Inr \<lparr>so_Salt = salt,
                  so_Maker = od_Maker orderData,
                  so_Signer = od_Signer orderData,
                  so_Taker = od_Taker orderData,
                  so_TokenID = od_TokenID orderData,
                  so_MakerAmount = bigint_String (od_MakerAmount orderData),
                  so_TakerAmount = bigint_String (od_TakerAmount orderData),
                  so_Expiration = od_Expiration orderData,
                  so_Nonce = od_Nonce orderData,
                  so_FeeRateBps = od_FeeRateBps orderData,
                  so_Side = sideStr,
                  so_SignatureType = od_SignatureType orderData,
                  so_Signature = signature_string signature\<rparr>)))"

definition CreateOrder ::
    "'k primitives \<Rightarrow> 'k OrderBuilder \<Rightarrow> OrderArgs \<Rightarrow> CreateOrderOptions \<Rightarrow> string
      \<Rightarrow> int \<Rightarrow> f64 \<Rightarrow> error + SignedOrder" where
  "CreateOrder L ob orderArgs options exchangeAddress now rnd =
     (case getOrderAmounts (oa_Side orderArgs) (oa_Size orderArgs) (oa_Price orderArgs)
             (opt_TickSize options) of
        Inl err \<Rightarrow> Inl err
      | Inr (side, makerAmount, takerAmount) \<Rightarrow>
          (let orderData =
                 \<lparr>od_Maker = ob_funder ob,
                  od_Taker = oa_Taker orderArgs,
                  od_TokenID = oa_TokenID orderArgs,
                  od_MakerAmount = makerAmount,
                  od_TakerAmount = takerAmount,
                  od_Side = side,
                  od_FeeRateBps = show_int (oa_FeeRateBps orderArgs),
                  od_Nonce = show_int (oa_Nonce orderArgs),
                  od_Signer = AddressHex L (s_address (ob_signer ob)),
                  od_Expiration = show_int (oa_Expiration orderArgs),
                  od_SignatureType = ob_signatureType ob\<rparr>
           in signOrder L ob orderData exchangeAddress now rnd))"

definition CreateMarketOrder ::
    "'k primitives \<Rightarrow> 'k OrderBuilder \<Rightarrow> MarketOrderArgs \<Rightarrow> CreateOrderOptions \<Rightarrow> string
      \<Rightarrow> int \<Rightarrow> f64 \<Rightarrow> error + SignedOrder" where
  "CreateMarketOrder L ob orderArgs options exchangeAddress now rnd =
     (case getMarketOrderAmounts (mo_Side orderArgs) (mo_Amount orderArgs)
             (mo_Price orderArgs) (opt_TickSize options) of
        Inl err \<Rightarrow> Inl err
      | Inr (side, makerAmount, takerAmount) \<Rightarrow>
          (let orderData =
                 \<lparr>od_Maker = ob_funder ob,
                  od_Taker = mo_Taker orderArgs,
                  od_TokenID = mo_TokenID orderArgs,
                  od_MakerAmount = makerAmount,
                  od_TakerAmount = takerAmount,
                  od_Side = side,
                  od_FeeRateBps = show_int (mo_FeeRateBps orderArgs),
                  od_Nonce = show_int (mo_Nonce orderArgs),
                  od_Signer = AddressHex L (s_address (ob_signer ob)),
                  od_Expiration = ''0'',
                  od_SignatureType = ob_signatureType ob\<rparr>
           in signOrder L ob orderData exchangeAddress now rnd))"

section \<open>Package client: creating a limit order\<close>

datatype AuthLevel = L0 | L1 | L2

record ContractConfig =
  cc_Exchange :: string
  cc_Collateral :: string
  cc_ConditionalTokens :: string

definition contractConfigs :: "int \<Rightarrow> ContractConfig option" where
  "contractConfigs chainID =
     (if chainID = 80002 then
        Some \<lparr>cc_Exchange = ''0xdFE02Eb6733538f8Ea35D585af8DE5958AD99E40'',
              cc_Collateral = ''0x9c4e1703476e875070ee25b56a58b008cfb8fa78'',
              cc_ConditionalTokens = ''0x69308FB512518e39F9b16112fA8d994F4e2Bf8bB''\<rparr>
      else if chainID = 137 then
        Some \<lparr>cc_Exchange = ''0x4bFb41d5B3570DeFd03C39a9A4D8dE6Bd8B8982E'',
              cc_Collateral = ''0x2791Bca1f2de4661ED88A30C99A7a9449Aa84174'',
              cc_ConditionalTokens = ''0x4D97DCd97eC945f40cF65F87097ACe5EA0476045''\<rparr>
      else None)"

definition negRiskContractConfigs :: "int \<Rightarrow> ContractConfig option" where
  "negRiskContractConfigs chainID =
     (if chainID = 80002 then
        Some \<lparr>cc_Exchange = ''0xd91E80cF2E7be2e162c6513ceD06f1dD0dA35296'',
              cc_Collateral = ''0x9c4e1703476e875070ee25b56a58b008cfb8fa78'',
              cc_ConditionalTokens = ''0x69308FB512518e39F9b16112fA8d994F4e2Bf8bB''\<rparr>
      else if chainID = 137 then
        Some \<lparr>cc_Exchange = ''0xC5d563A36AE78145C45a50134d48A1215220f80a'',
              cc_Collateral = ''0x2791bca1f2de4661ed88a30c99a7a9449aa84174'',
              cc_ConditionalTokens = ''0x4D97DCd97eC945f40cF65F87097ACe5EA0476045''\<rparr>
      else None)"

record 'k ClobClient =
  c_chainID :: int
  c_authLevel :: AuthLevel
  c_orderBuilder :: "'k OrderBuilder"

text \<open>
  \<^verbatim>\<open>ClobClient.CreateOrder\<close>.  The options come from \<^verbatim>\<open>resolveOrderOptions\<close>, which
  asks the venue for the tick size and the neg-risk flag: its outcome is the input
  \<open>resolved\<close>, an error or the resolved options.
\<close>

definition Client_CreateOrder ::
    "'k primitives \<Rightarrow> 'k ClobClient \<Rightarrow> OrderArgs \<Rightarrow> error + CreateOrderOptions
      \<Rightarrow> int \<Rightarrow> f64 \<Rightarrow> error + SignedOrder" where
  "Client_CreateOrder L c orderArgs resolved now rnd =
     (if c_authLevel c = L0 then Inl AuthRequired
      else case resolved of
        Inl err \<Rightarrow> Inl OptionsUnresolved
      | Inr resolvedOptions \<Rightarrow>
          if \<not> ValidatePrice (oa_Price orderArgs) (opt_TickSize resolvedOptions)
          then Inl InvalidPrice
          else case (if opt_NegRisk resolvedOptions
                     then negRiskContractConfigs (c_chainID c)
                     else contractConfigs (c_chainID c)) of
                 None \<Rightarrow> Inl UnsupportedChain
               | Some contractConfig \<Rightarrow>
                   CreateOrder L (c_orderBuilder c) orderArgs resolvedOptions
                     (cc_Exchange contractConfig) now rnd)"

section \<open>Package auth: the level-2 headers\<close>

text \<open>
  The standard-library primitives of the header builder are parameters: the padded
  URL-safe base64 decoder (\<open>None\<close> when it returns an error) and encoder, HMAC-SHA256
  with its key first, and \<^verbatim>\<open>json.Marshal\<close> on a body of type \<open>'b\<close> (\<open>None\<close> when it
  returns an error).
\<close>

record 'b codecs =
  Base64Decode :: "string \<Rightarrow> bytes option"
  Base64Encode :: "bytes \<Rightarrow> string"
  HmacSha256 :: "bytes \<Rightarrow> bytes \<Rightarrow> bytes"
  JsonMarshal :: "'b \<Rightarrow> string option"

record ApiCreds =
  ApiKey :: string
  ApiSecret :: string
  ApiPassphrase :: string

record 'b RequestArgs =
  ra_Method :: string
  ra_RequestPath :: string
  ra_Body :: "'b option"

text \<open>\<^verbatim>\<open>strings.ReplaceAll(s, "'", "\"")\<close>.\<close>

fun replace_quotes :: "string \<Rightarrow> string" where
  "replace_quotes [] = []"
| "replace_quotes (c # cs) = (if c = CHR 0x27 then CHR 0x22 else c) # replace_quotes cs"

definition buildHMACSignature ::
    "'b codecs \<Rightarrow> string \<Rightarrow> int \<Rightarrow> 'b RequestArgs \<Rightarrow> error + string" where
  "buildHMACSignature P secret timestamp requestArgs =
     (case Base64Decode P secret of
        None \<Rightarrow> Inl InvalidCredentialSecret
      | Some decodedSecret \<Rightarrow>
          (let message = show_int timestamp @ ra_Method requestArgs @ ra_RequestPath requestArgs
           in bind_err
                (case ra_Body requestArgs of
                   None \<Rightarrow> Inr message
                 | Some body \<Rightarrow>
                     (case JsonMarshal P body of
                        None \<Rightarrow> Inl MarshalFailure
                      | Some bodyBytes \<Rightarrow> Inr (message @ replace_quotes bodyBytes)))
                (\<lambda>message.
                   let signature = HmacSha256 P decodedSecret (bytes_of message);
                       encodedSignature = Base64Encode P signature
                   in Inr encodedSignature)))"

definition PolyAddress :: string where "PolyAddress = ''POLY_ADDRESS''"
definition PolySignature :: string where "PolySignature = ''POLY_SIGNATURE''"
definition PolyTimestamp :: string where "PolyTimestamp = ''POLY_TIMESTAMP''"
definition PolyNonce :: string where "PolyNonce = ''POLY_NONCE''"
definition PolyApiKey :: string where "PolyApiKey = ''POLY_API_KEY''"
definition PolyPassphrase :: string where "PolyPassphrase = ''POLY_PASSPHRASE''"

text \<open>
  \<^verbatim>\<open>CreateLevel2Headers\<close>; \<open>timestamp\<close> is \<^verbatim>\<open>time.Now().Unix()\<close>, \<open>addressHex\<close> the
  signer's address.  The credentials are a pointer: reading the secret of a nil
  pointer panics.
\<close>

definition CreateLevel2Headers ::
    "'b codecs \<Rightarrow> string \<Rightarrow> ApiCreds option \<Rightarrow> 'b RequestArgs \<Rightarrow> int
      \<Rightarrow> error + (string \<rightharpoonup> string)" where
  "CreateLevel2Headers P addressHex creds requestArgs timestamp =
     (case creds of
        None \<Rightarrow> Inl Panic
      | Some creds \<Rightarrow>
          bind_err (buildHMACSignature P (ApiSecret creds) timestamp requestArgs) (\<lambda>hmacSig.
          Inr [PolyAddress \<mapsto> addressHex,
               PolySignature \<mapsto> hmacSig,
               PolyTimestamp \<mapsto> show_int timestamp,
               PolyApiKey \<mapsto> ApiKey creds,
               PolyPassphrase \<mapsto> ApiPassphrase creds]))"

section \<open>The spec's side of the claims\<close>

text \<open>The decimal a tick-size string stands for; an unrecognised one counts as \<open>0.01\<close>.\<close>

definition tick_decimal :: "TickSize \<Rightarrow> rat" where
  "tick_decimal tickSize =
     (if tickSize = ''0.1'' then 1 / 10
      else if tickSize = ''0.001'' then 1 / 1000
      else if tickSize = ''0.0001'' then 1 / 10000
      else 1 / 100)"



text \<open>
  The limit-order algorithm of the spec on exact decimals: round half up, round down,
  round up, the number of decimal places, and truncation to an integer scaled by
  \<open>10^6\<close>.
\<close>

definition spec_round_half_up :: "rat \<Rightarrow> nat \<Rightarrow> rat" where
  "spec_round_half_up x d = of_int \<lfloor>x * 10 ^ d + 1 / 2\<rfloor> / 10 ^ d"

definition spec_round_down :: "rat \<Rightarrow> nat \<Rightarrow> rat" where
  "spec_round_down x d = of_int \<lfloor>x * 10 ^ d\<rfloor> / 10 ^ d"

definition spec_round_up :: "rat \<Rightarrow> nat \<Rightarrow> rat" where
  "spec_round_up x d = of_int \<lceil>x * 10 ^ d\<rceil> / 10 ^ d"

definition spec_places_exceed :: "rat \<Rightarrow> nat \<Rightarrow> bool" where
  "spec_places_exceed x d = (of_int \<lfloor>x * 10 ^ d\<rfloor> \<noteq> x * 10 ^ d)"

definition spec_repair_exact :: "nat \<Rightarrow> rat \<Rightarrow> rat" where
  "spec_repair_exact amount x =
     (if spec_places_exceed x amount then
        (let up = spec_round_up x (amount + 4)
         in if spec_places_exceed up amount then spec_round_down up amount else up)
      else x)"

definition spec_to_token_decimals :: "rat \<Rightarrow> int" where
  "spec_to_token_decimals x =
     (if 0 \<le> x then \<lfloor>x * 1000000\<rfloor> else - \<lfloor>- x * 1000000\<rfloor>)"

definition spec_limit_amounts ::
    "OrderSide \<Rightarrow> rat \<Rightarrow> rat \<Rightarrow> RoundConfig \<Rightarrow> (int \<times> int \<times> int) option" where
  "spec_limit_amounts side size' price profile =
     (let rounded_price = spec_round_half_up price (nat (Price profile));
          leg = spec_round_down size' (nat (Size profile));
          product = spec_repair_exact (nat (Amount profile)) (leg * rounded_price)
      in if side = BUY
         then Some (0, spec_to_token_decimals product, spec_to_token_decimals leg)
         else if side = SELL
         then Some (1, spec_to_token_decimals leg, spec_to_token_decimals product)
         else None)"

text \<open>
  A double that is not negative: \<^verbatim>\<open>x >= 0\<close> holds, or \<open>x\<close> is a NaN.
\<close>

definition not_negative :: "f64 \<Rightarrow> bool" where
  "not_negative x = (case x of Finite r \<Rightarrow> 0 \<le> r | NegInf \<Rightarrow> False | _ \<Rightarrow> True)"







section \<open>Sample values\<close>

text \<open>
  Concrete stand-ins for the library primitives and a client, used where a statement
  is evaluated at an explicit input.  The results do not depend on how the stand-ins
  hash or sign.
\<close>

definition sample_primitives :: "nat primitives" where
  "sample_primitives =
     \<lparr>Keccak256 = (\<lambda>bs. take 32 (bs @ replicate 32 0)),
      HexToAddress = (\<lambda>str. Abs_address (take 20 (bytes_of str @ replicate 20 0))),
      AddressHex = (\<lambda>a. ''0x'' @ hex_of_bytes (Rep_address a)),
      EcdsaSign = (\<lambda>h k. Some (take 64 (h @ replicate 64 0) @ [1]))\<rparr>"

definition sample_signer :: "nat Signer" where
  "sample_signer =
     \<lparr>s_privateKey = 1, s_address = Abs_address (replicate 20 17), s_chainID = 137\<rparr>"

definition sample_builder :: "nat OrderBuilder" where
  "sample_builder =
     \<lparr>ob_signer = sample_signer, ob_signatureType = 0,
      ob_funder = ''0x1111111111111111111111111111111111111111''\<rparr>"

definition sample_client :: "nat ClobClient" where
  "sample_client = \<lparr>c_chainID = 137, c_authLevel = L1, c_orderBuilder = sample_builder\<rparr>"

definition sample_order_args :: "OrderSide \<Rightarrow> f64 \<Rightarrow> f64 \<Rightarrow> OrderArgs" where
  "sample_order_args side size' price =
     \<lparr>oa_TokenID = ''1234'', oa_Price = price, oa_Size = size', oa_Side = side,
      oa_FeeRateBps = 0, oa_Nonce = 0, oa_Expiration = 0,
      oa_Taker = ''0x0000000000000000000000000000000000000000''\<rparr>"

definition sample_market_args :: "OrderSide \<Rightarrow> f64 \<Rightarrow> f64 \<Rightarrow> MarketOrderArgs" where
  "sample_market_args side amount price =
     \<lparr>mo_TokenID = ''1234'', mo_Amount = amount, mo_Side = side, mo_Price = price,
      mo_FeeRateBps = 0, mo_Nonce = 0,
      mo_Taker = ''0x0000000000000000000000000000000000000000'', mo_OrderType = ''FOK''\<rparr>"

definition sample_options :: CreateOrderOptions where
  "sample_options = \<lparr>opt_TickSize = TickSize001, opt_NegRisk = False\<rparr>"

definition sample_order_data :: "string \<Rightarrow> OrderData" where
  "sample_order_data tokenID =
     \<lparr>od_Maker = ''0x1111111111111111111111111111111111111111'',
      od_Taker = ''0x0000000000000000000000000000000000000000'',
      od_TokenID = tokenID,
      od_MakerAmount = Some 5500000,
      od_TakerAmount = Some 10000000,
      od_Side = 0,
      od_FeeRateBps = ''0'',
      od_Nonce = ''0'',
      od_Signer = ''0x1111111111111111111111111111111111111111'',
      od_Expiration = ''0'',
      od_SignatureType = 0\<rparr>"

text \<open>
  A request body is either one whose JSON text is known or one that \<^verbatim>\<open>json.Marshal\<close>
  rejects (a channel, a function, a NaN).  The sample decoder knows one secret.
\<close>

datatype sample_body = JsonText string | Unmarshalable

definition sample_codecs :: "sample_body codecs" where
  "sample_codecs =
     \<lparr>Base64Decode = (\<lambda>str. if str = ''c2VjcmV0'' then Some (bytes_of ''secret'') else None),
      Base64Encode = (\<lambda>bs. hex_of_bytes bs),
      HmacSha256 = (\<lambda>key msg. take 32 (key @ msg @ replicate 32 0)),
      JsonMarshal = (\<lambda>body. case body of JsonText js \<Rightarrow> Some js | Unmarshalable \<Rightarrow> None)\<rparr>"

section \<open>Evaluation rules\<close>

text \<open>
  Closed terms are evaluated by the simplifier.  The recursive functions unfold on
  numerals and on explicit lists only, so the rules below never loop.
\<close>

lemma floor_rat_numeral_div [simp]:
  "\<lfloor>numeral a / numeral b :: rat\<rfloor> = numeral a div numeral b"
  by (metis floor_divide_of_int_eq of_int_numeral)

lemma floor_rat_neg_numeral_div [simp]:
  "\<lfloor>- (numeral a / numeral b) :: rat\<rfloor> = - numeral a div numeral b"
  by (metis divide_minus_left floor_divide_of_int_eq of_int_neg_numeral of_int_numeral)

lemma floor_rat_one_div [simp]:
  "\<lfloor>1 / numeral b :: rat\<rfloor> = 1 div numeral b"
  by (metis floor_divide_of_int_eq of_int_1 of_int_numeral)

lemma ceiling_rat_numeral_div [simp]:
  "\<lceil>numeral a / numeral b :: rat\<rceil> = - (- numeral a div numeral b)"
  using ceiling_divide_eq_div [of "numeral a" "numeral b", where ?'a = rat] by simp

lemma multiplier_loop_numeral [simp]:
  "multiplier_loop (numeral k) m = multiplier_loop (pred_numeral k) (f64_mul m (f64_lit 10))"
  by (simp add: numeral_eq_Suc)

lemma bit_length_numeral:
  "bit_length (numeral k) = Suc (bit_length (numeral k div 2))"
  "bit_length 0 = 0" "bit_length (Suc 0) = Suc 0" "bit_length 1 = 1"
  by (simp_all add: bit_length.simps)

lemma show_nat_numeral:
  "show_nat (numeral k) =
     (if numeral k < (10::nat) then [digit_char (numeral k)]
      else show_nat (numeral k div 10) @ [digit_char (numeral k mod 10)])"
  "show_nat 0 = ''0''" "show_nat (Suc 0) = ''1''" "show_nat 1 = ''1''"
  by (simp_all add: show_nat.simps digit_char_def)

lemma strip_zeros_Cons:
  "strip_zeros [] = []"
  "strip_zeros (c # cs) =
     (if last (c # cs) = CHR ''0'' then strip_zeros (butlast (c # cs)) else c # cs)"
  by (simp_all add: strip_zeros.simps)

lemma replicate_numeral_Cons:
  "replicate (numeral k) x = x # replicate (pred_numeral k) x"
  by (simp add: numeral_eq_Suc)

named_theorems f64_eval and amount_eval

lemmas [f64_eval] =
  bit_length_numeral ilog2_def pow2_def round_half_even_def round_at_def f64_zero_def
  f64_inf_def f64_round_def f64_lit_def f64_sign_def f64_mag_def f64_val_def is_nan_def
  is_inf_def is_zero_def f64_mul_def f64_div_def f64_add_def f64_neg_def f64_sub_def
  f64_le_def f64_lt_def f64_ge_def f64_to_int_def f64_of_int_def wrap64_def Let_def

lemmas [amount_eval] =
  digit_char_def show_nat_numeral show_int_def replicate_numeral_Cons fmt_f10_def bigfloat_mul53_def
  ToTokenDecimals_def multiplier_of_def RoundDown_def RoundUp_def RoundNormal_def
  strip_zeros_Cons DecimalPlaces_def TickSize01_def TickSize001_def TickSize0001_def
  TickSize00001_def ParseTickSize_def ValidatePrice_def GetRoundingConfig_def BUY_def
  SELL_def to_amounts_def getOrderAmounts_def
  getMarketOrderAmounts_def

section \<open>Claims\<close>

text \<open>
  C2.  Scenario A: with tick size \<open>0.01\<close> (rounding profile price 2, size 2, amount 4),
  a BUY of size \<open>10.0\<close> at price \<open>0.55\<close> gives the side ordinal 0, the maker amount
  5,500,000 and the taker amount 10,000,000.  The inputs are the doubles the Go
  literals \<^verbatim>\<open>10.0\<close> and \<^verbatim>\<open>0.55\<close> denote.
\<close>

theorem C2_scenario_A:
  "GetRoundingConfig TickSize001 = \<lparr>Price = 2, Size = 2, Amount = 4\<rparr> \<and>
   getOrderAmounts BUY (f64_lit 10) (f64_lit (55 / 100)) TickSize001
     = Inr (0, Some 5500000, Some 10000000)"
  by (simp add: f64_eval amount_eval)

text \<open>
  C10.  A tick-size string outside the four recognised values is treated as \<open>0.01\<close>:
  the parser returns the double \<open>0.01\<close>, the rounding profile is price 2, size 2,
  amount 4, and price validation and both amount computations give what they give for
  the tick size \<open>0.01\<close>; nothing fails.
\<close>

theorem C10_unknown_tick_size:
  assumes "tickSize \<notin> {''0.1'', ''0.01'', ''0.001'', ''0.0001''}"
  shows "ParseTickSize tickSize = f64_lit (1 / 100)
       \<and> ParseTickSize tickSize = ParseTickSize TickSize001
       \<and> GetRoundingConfig tickSize = \<lparr>Price = 2, Size = 2, Amount = 4\<rparr>
       \<and> GetRoundingConfig tickSize = GetRoundingConfig TickSize001
       \<and> ValidatePrice price tickSize = ValidatePrice price TickSize001
       \<and> getOrderAmounts side size' price tickSize
           = getOrderAmounts side size' price TickSize001
       \<and> getMarketOrderAmounts side amount price tickSize
           = getMarketOrderAmounts side amount price TickSize001"
proof -
  have p: "ParseTickSize tickSize = ParseTickSize TickSize001"
    using assms
    by (simp add: ParseTickSize_def TickSize01_def TickSize001_def TickSize0001_def
        TickSize00001_def)
  have g: "GetRoundingConfig tickSize = GetRoundingConfig TickSize001"
    using assms
    by (simp add: GetRoundingConfig_def TickSize01_def TickSize001_def TickSize0001_def
        TickSize00001_def)
  have p': "ParseTickSize TickSize001 = f64_lit (1 / 100)"
    by (simp add: ParseTickSize_def TickSize01_def TickSize001_def)
  have g': "GetRoundingConfig TickSize001 = \<lparr>Price = 2, Size = 2, Amount = 4\<rparr>"
    by (simp add: GetRoundingConfig_def TickSize01_def TickSize001_def)
  show ?thesis
    by (simp add: p g p' g' ValidatePrice_def getOrderAmounts_def getMarketOrderAmounts_def)
qed

theorem C10_unknown_tick_size_witness:
  "''0.05'' \<notin> {''0.1'', ''0.01'', ''0.001'', ''0.0001''}
   \<and> ParseTickSize ''0.05'' = f64_lit (1 / 100)
   \<and> GetRoundingConfig ''0.05'' = \<lparr>Price = 2, Size = 2, Amount = 4\<rparr>
   \<and> ValidatePrice (f64_lit (1 / 2)) ''0.05'' = ValidatePrice (f64_lit (1 / 2)) TickSize001
   \<and> getOrderAmounts BUY (f64_lit 10) (f64_lit (55 / 100)) ''0.05''
       = getOrderAmounts BUY (f64_lit 10) (f64_lit (55 / 100)) TickSize001"
  using C10_unknown_tick_size [of "''0.05''" "f64_lit (1 / 2)" BUY "f64_lit 10" "f64_lit 10"]
    C10_unknown_tick_size [of "''0.05''" "f64_lit (55 / 100)" BUY "f64_lit 10" "f64_lit 10"]
  by simp

lemma tick_doubles:
  "f64_lit (1 / 10) = Finite (3602879701896397 / 36028797018963968)"
  "f64_lit (1 / 100) = Finite (5764607523034235 / 576460752303423488)"
  "f64_lit (1 / 1000) = Finite (1152921504606847 / 1152921504606846976)"
  "f64_lit (1 / 10000) = Finite (7378697629483821 / 73786976294838206464)"
  by (simp_all add: f64_eval)

lemma tick_complements:
  "f64_sub (f64_lit 1) (f64_lit (1 / 10)) = Finite (8106479329266893 / 9007199254740992)"
  "f64_sub (f64_lit 1) (f64_lit (1 / 100)) = Finite (4458563631096791 / 4503599627370496)"
  "f64_sub (f64_lit 1) (f64_lit (1 / 1000)) = Finite (8998192055486251 / 9007199254740992)"
  "f64_sub (f64_lit 1) (f64_lit (1 / 10000)) = Finite (4503149267407759 / 4503599627370496)"
  by (simp_all add: f64_eval)

lemma complement_doubles:
  "f64_lit (9 / 10) = Finite (8106479329266893 / 9007199254740992)"
  "f64_lit (99 / 100) = Finite (4458563631096791 / 4503599627370496)"
  "f64_lit (999 / 1000) = Finite (8998192055486251 / 9007199254740992)"
  "f64_lit (9999 / 10000) = Finite (4503149267407759 / 4503599627370496)"
  by (simp_all add: f64_eval)

lemma ParseTickSize_decimal: "ParseTickSize tickSize = f64_lit (tick_decimal tickSize)"
  by (simp add: ParseTickSize_def tick_decimal_def TickSize01_def TickSize001_def
      TickSize0001_def TickSize00001_def)

lemma tick_decimal_cases:
  "tick_decimal tickSize \<in> {1 / 10, 1 / 100, 1 / 1000, 1 / 10000}"
  by (simp add: tick_decimal_def)

lemma tick_bounds:
  obtains lo hi where "ParseTickSize tickSize = Finite lo"
    and "f64_sub (f64_lit 1) (ParseTickSize tickSize) = Finite hi"
    and "f64_lit (1 - tick_decimal tickSize) = Finite hi"
    and "lo \<le> hi"
proof -
  consider "tick_decimal tickSize = 1 / 10" | "tick_decimal tickSize = 1 / 100"
    | "tick_decimal tickSize = 1 / 1000" | "tick_decimal tickSize = 1 / 10000"
    using tick_decimal_cases [of tickSize] by auto
  then show ?thesis
  proof cases
    case 1
    have "ParseTickSize tickSize = Finite (3602879701896397 / 36028797018963968)"
      by (simp add: ParseTickSize_decimal 1 tick_doubles)
    moreover have "f64_sub (f64_lit 1) (ParseTickSize tickSize) = Finite (8106479329266893 / 9007199254740992)"
      by (simp add: ParseTickSize_decimal 1 tick_complements)
    moreover have "f64_lit (1 - tick_decimal tickSize) = Finite (8106479329266893 / 9007199254740992)"
      by (simp add: 1 complement_doubles)
    moreover have "(3602879701896397 / 36028797018963968 :: rat) \<le> 8106479329266893 / 9007199254740992"
      by simp
    ultimately show ?thesis
      by (rule that)
  next
    case 2
    have "ParseTickSize tickSize = Finite (5764607523034235 / 576460752303423488)"
      by (simp add: ParseTickSize_decimal 2 tick_doubles)
    moreover have "f64_sub (f64_lit 1) (ParseTickSize tickSize) = Finite (4458563631096791 / 4503599627370496)"
      by (simp add: ParseTickSize_decimal 2 tick_complements)
    moreover have "f64_lit (1 - tick_decimal tickSize) = Finite (4458563631096791 / 4503599627370496)"
      by (simp add: 2 complement_doubles)
    moreover have "(5764607523034235 / 576460752303423488 :: rat) \<le> 4458563631096791 / 4503599627370496"
      by simp
    ultimately show ?thesis
      by (rule that)
  next
    case 3
    have "ParseTickSize tickSize = Finite (1152921504606847 / 1152921504606846976)"
      by (simp add: ParseTickSize_decimal 3 tick_doubles)
    moreover have "f64_sub (f64_lit 1) (ParseTickSize tickSize) = Finite (8998192055486251 / 9007199254740992)"
      by (simp add: ParseTickSize_decimal 3 tick_complements)
    moreover have "f64_lit (1 - tick_decimal tickSize) = Finite (8998192055486251 / 9007199254740992)"
      by (simp add: 3 complement_doubles)
    moreover have "(1152921504606847 / 1152921504606846976 :: rat) \<le> 8998192055486251 / 9007199254740992"
      by simp
    ultimately show ?thesis
      by (rule that)
  next
    case 4
    have "ParseTickSize tickSize = Finite (7378697629483821 / 73786976294838206464)"
      by (simp add: ParseTickSize_decimal 4 tick_doubles)
    moreover have "f64_sub (f64_lit 1) (ParseTickSize tickSize) = Finite (4503149267407759 / 4503599627370496)"
      by (simp add: ParseTickSize_decimal 4 tick_complements)
    moreover have "f64_lit (1 - tick_decimal tickSize) = Finite (4503149267407759 / 4503599627370496)"
      by (simp add: 4 complement_doubles)
    moreover have "(7378697629483821 / 73786976294838206464 :: rat) \<le> 4503149267407759 / 4503599627370496"
      by simp
    ultimately show ?thesis
      by (rule that)
  qed
qed

lemma ValidatePrice_iff:
  "ValidatePrice price tickSize \<longleftrightarrow>
     f64_le (ParseTickSize tickSize) price
     \<and> f64_le price (f64_sub (f64_lit 1) (ParseTickSize tickSize))"
  by (simp add: ValidatePrice_def f64_ge_def Let_def)

lemma f64_lt_not_le: "f64_lt x y \<Longrightarrow> \<not> f64_le y x"
  by (cases x; cases y) (auto simp: f64_lt_def f64_le_def is_nan_def f64_val_def)

text \<open>
  C3.  Price validation accepts exactly the closed interval from the tick size to one
  minus the tick size: a price is valid iff it is not below the double of the tick size
  and not above the double \<open>1 - tickSize\<close>, which is the double nearest to that
  decimal; both end points are accepted; a price strictly outside (and a NaN) is
  rejected, and the client's order creation then returns the \<open>InvalidPrice\<close> error
  instead of a signed order.
\<close>

theorem C3_price_validation:
  "(ValidatePrice price tickSize \<longleftrightarrow>
      f64_le (ParseTickSize tickSize) price
      \<and> f64_le price (f64_sub (f64_lit 1) (ParseTickSize tickSize)))
   \<and> ParseTickSize tickSize = f64_lit (tick_decimal tickSize)
   \<and> f64_sub (f64_lit 1) (ParseTickSize tickSize) = f64_lit (1 - tick_decimal tickSize)
   \<and> ValidatePrice (ParseTickSize tickSize) tickSize
   \<and> ValidatePrice (f64_sub (f64_lit 1) (ParseTickSize tickSize)) tickSize
   \<and> (f64_lt price (ParseTickSize tickSize)
        \<or> f64_lt (f64_sub (f64_lit 1) (ParseTickSize tickSize)) price
      \<longrightarrow> \<not> ValidatePrice price tickSize)
   \<and> (\<not> ValidatePrice (oa_Price orderArgs) (opt_TickSize options) \<and> c_authLevel c \<noteq> L0
      \<longrightarrow> Client_CreateOrder L c orderArgs (Inr options) now rnd = Inl InvalidPrice)"
proof -
  obtain lo hi where lo: "ParseTickSize tickSize = Finite lo"
    and hi: "f64_sub (f64_lit 1) (ParseTickSize tickSize) = Finite hi"
    and dec: "f64_lit (1 - tick_decimal tickSize) = Finite hi"
    and le: "lo \<le> hi"
    by (rule tick_bounds)
  note hi' = hi [unfolded lo]
  have ends: "ValidatePrice (Finite lo) tickSize" "ValidatePrice (Finite hi) tickSize"
    using le by (simp_all add: ValidatePrice_iff lo hi' f64_le_def is_nan_def f64_val_def)
  have out: "f64_lt price (Finite lo) \<or> f64_lt (Finite hi) price
      \<longrightarrow> \<not> ValidatePrice price tickSize"
    using f64_lt_not_le by (auto simp: ValidatePrice_iff lo hi')
  have client: "\<not> ValidatePrice (oa_Price orderArgs) (opt_TickSize options)
        \<and> c_authLevel c \<noteq> L0
      \<longrightarrow> Client_CreateOrder L c orderArgs (Inr options) now rnd = Inl InvalidPrice"
    by (simp add: Client_CreateOrder_def)
  have c1: "ValidatePrice price tickSize \<longleftrightarrow>
      f64_le (ParseTickSize tickSize) price
      \<and> f64_le price (f64_sub (f64_lit 1) (ParseTickSize tickSize))"
    by (rule ValidatePrice_iff)
  have c2: "ParseTickSize tickSize = f64_lit (tick_decimal tickSize)"
    by (rule ParseTickSize_decimal)
  have c3: "f64_sub (f64_lit 1) (ParseTickSize tickSize) = f64_lit (1 - tick_decimal tickSize)"
    by (simp only: hi dec)
  have c4: "ValidatePrice (ParseTickSize tickSize) tickSize"
    using ends by (simp only: lo)
  have c5: "ValidatePrice (f64_sub (f64_lit 1) (ParseTickSize tickSize)) tickSize"
    using ends by (simp only: hi)
  have c6: "f64_lt price (ParseTickSize tickSize)
        \<or> f64_lt (f64_sub (f64_lit 1) (ParseTickSize tickSize)) price
      \<longrightarrow> \<not> ValidatePrice price tickSize"
    using out by (simp only: lo hi')
  show ?thesis
    using c1 c2 c3 c4 c5 c6 client by blast
qed

theorem C3_price_validation_witness:
  "f64_lt (f64_sub (f64_lit 1) (ParseTickSize TickSize001)) (f64_lit (995 / 1000))
   \<and> \<not> ValidatePrice (f64_lit (995 / 1000)) TickSize001
   \<and> c_authLevel sample_client \<noteq> L0
   \<and> Client_CreateOrder sample_primitives sample_client
         (sample_order_args BUY (f64_lit 10) (f64_lit (995 / 1000))) (Inr sample_options)
         1700000000 (f64_lit (1 / 2)) = Inl InvalidPrice
   \<and> ValidatePrice (f64_lit (1 / 100)) TickSize001
   \<and> ValidatePrice (f64_lit (99 / 100)) TickSize001"
proof -
  let ?args = "sample_order_args BUY (f64_lit 10) (f64_lit (995 / 1000))"
  note t = C3_price_validation [of "oa_Price ?args" "opt_TickSize sample_options" ?args
      sample_options sample_client sample_primitives 1700000000 "f64_lit (1 / 2)"]
  have p: "oa_Price ?args = f64_lit (995 / 1000)"
    by (simp add: sample_order_args_def)
  have o: "opt_TickSize sample_options = TickSize001"
    by (simp add: sample_options_def)
  have a: "f64_lt (f64_sub (f64_lit 1) (ParseTickSize TickSize001)) (f64_lit (995 / 1000))"
    by (simp add: f64_eval ParseTickSize_def TickSize01_def TickSize001_def)
  have b: "c_authLevel sample_client \<noteq> L0"
    by (simp add: sample_client_def)
  have lo: "ParseTickSize TickSize001 = f64_lit (1 / 100)"
    by (simp add: ParseTickSize_def TickSize01_def TickSize001_def)
  note t' = t [unfolded p o]
  have d: "1 - tick_decimal TickSize001 = 99 / 100"
    by (simp add: tick_decimal_def TickSize001_def)
  have "f64_sub (f64_lit 1) (ParseTickSize TickSize001)
      = f64_lit (1 - tick_decimal TickSize001)"
    using t' by blast
  then have hi: "f64_sub (f64_lit 1) (ParseTickSize TickSize001) = f64_lit (99 / 100)"
    by (simp only: d)
  have n: "\<not> ValidatePrice (f64_lit (995 / 1000)) TickSize001"
    using t' a by blast
  have "\<not> ValidatePrice (oa_Price ?args) (opt_TickSize sample_options)"
    unfolding p o by (rule n)
  then have e: "Client_CreateOrder sample_primitives sample_client ?args (Inr sample_options)
      1700000000 (f64_lit (1 / 2)) = Inl InvalidPrice"
    using t b by blast
  have "ValidatePrice (ParseTickSize TickSize001) TickSize001"
    using t' by blast
  then have v1: "ValidatePrice (f64_lit (1 / 100)) TickSize001"
    by (simp only: lo)
  have "ValidatePrice (f64_sub (f64_lit 1) (ParseTickSize TickSize001)) TickSize001"
    using t' by blast
  then have v2: "ValidatePrice (f64_lit (99 / 100)) TickSize001"
    by (simp only: hi)
  show ?thesis
    using a n b e v1 v2 by blast
qed

lemmas spec_eval = spec_round_half_up_def spec_round_down_def spec_round_up_def
  spec_places_exceed_def spec_repair_exact_def spec_to_token_decimals_def
  spec_limit_amounts_def

text \<open>
  C1.  The limit-order computation is claimed to follow the algorithm of the spec
  exactly: price rounded half up, size rounded down, the product leg repaired in two
  stages, both legs truncated to integers scaled by \<open>10^6\<close>.  At BUY, size \<open>3.0\<close>,
  price \<open>0.3\<close>, tick size \<open>0.01\<close> the algorithm gives the maker amount
  \<open>3.00 * 0.30 * 10^6 = 900000\<close>; the code returns 899999.  The product of the two
  doubles is \<open>0.8999999999999999\<close>; printed with ten decimals it has one decimal place,
  so the repair is skipped, and the conversion truncates \<open>899999.9999999999\<close>.
\<close>

theorem C1_limit_amounts_failing_input:
  "getOrderAmounts BUY (f64_lit 3) (f64_lit (3 / 10)) TickSize001
     = Inr (0, Some 899999, Some 3000000)
   \<and> spec_limit_amounts BUY 3 (3 / 10) (GetRoundingConfig TickSize001)
     = Some (0, 900000, 3000000)"
  by (simp add: f64_eval amount_eval spec_eval)

section \<open>Signs through the rounding helpers\<close>

text \<open>
  The exponent function brackets its argument, a rounded product below \<open>2^63\<close> stays
  below \<open>2^63 - 1\<close> (so \<^verbatim>\<open>int(x) + 1\<close> in \<^verbatim>\<open>RoundUp\<close> does not wrap), and no helper
  turns a value that is not negative into a negative one.
\<close>

lemma pow2_pos [simp]: "0 < pow2 k"
  by (simp add: pow2_def)

lemma pow2_neg_nat: "pow2 (- int n) = 1 / 2 ^ n"
  by (cases "n = 0") (simp_all add: pow2_def)

lemma pow2_nat: "pow2 (int n) = 2 ^ n"
  by (simp add: pow2_def)

lemma bit_length_upper: "n < 2 ^ bit_length n"
proof (induction n rule: bit_length.induct)
  case (1 n)
  show ?case
  proof (cases "n = 0")
    case True
    then show ?thesis by (simp add: bit_length.simps)
  next
    case False
    with 1 have "n div 2 < 2 ^ bit_length (n div 2)" by simp
    then have "n < 2 * 2 ^ bit_length (n div 2)" by linarith
    with False show ?thesis by (subst bit_length.simps) simp
  qed
qed

lemma bit_length_lower: "0 < n \<Longrightarrow> 2 ^ (bit_length n - 1) \<le> n"
proof (induction n rule: bit_length.induct)
  case (1 n)
  show ?case
  proof (cases "n div 2 = 0")
    case True
    with 1(2) have "n = 1" by linarith
    then show ?thesis by (simp add: bit_length.simps)
  next
    case False
    with 1 have ih: "2 ^ (bit_length (n div 2) - 1) \<le> n div 2" by simp
    have pos: "0 < bit_length (n div 2)"
      using False by (subst bit_length.simps) simp
    have "bit_length n = Suc (bit_length (n div 2))"
      using 1(2) by (subst bit_length.simps) simp
    then have "(2::nat) ^ (bit_length n - 1) = 2 * 2 ^ (bit_length (n div 2) - 1)"
      using pos by (cases "bit_length (n div 2)") simp_all
    also have "\<dots> \<le> 2 * (n div 2)" using ih by simp
    also have "\<dots> \<le> n" by simp
    finally show ?thesis .
  qed
qed

lemma ilog2_upper:
  assumes "0 < a"
  shows "a < pow2 (ilog2 a + 1)"
proof (cases "1 \<le> a")
  case True
  let ?m = "nat \<lfloor>a\<rfloor>"
  have "?m < 2 ^ bit_length ?m" by (rule bit_length_upper)
  moreover have "\<lfloor>a\<rfloor> = int ?m"
    using True by simp
  ultimately have "\<lfloor>a\<rfloor> < 2 ^ bit_length ?m"
    by simp
  then have "a < of_int (2 ^ bit_length ?m)"
    by (simp add: floor_less_iff)
  then show ?thesis using True by (simp add: ilog2_def pow2_def)
next
  case False
  let ?b = "1 / a"
  let ?m = "nat (\<lceil>?b\<rceil> - 1)"
  let ?j = "bit_length ?m"
  have b1: "1 < ?b" using False assms by simp
  then have two: "2 \<le> \<lceil>?b\<rceil>" by (simp add: le_ceiling_iff)
  then have mpos: "0 < ?m" by simp
  then have low: "2 ^ (?j - 1) \<le> ?m" by (rule bit_length_lower)
  have jpos: "0 < ?j" using mpos by (subst bit_length.simps) simp
  have "of_int (\<lceil>?b\<rceil> - 1) < ?b" by linarith
  moreover have "(of_nat ?m :: rat) = of_int (\<lceil>?b\<rceil> - 1)"
    using two assms by (subst of_nat_nat) simp_all
  ultimately have "(of_nat ?m :: rat) < ?b" by simp
  moreover have "(2::rat) ^ (?j - 1) \<le> of_nat ?m"
    using low by (metis of_nat_le_iff of_nat_numeral of_nat_power)
  ultimately have "(2::rat) ^ (?j - 1) < 1 / a" by linarith
  then have "a < 1 / 2 ^ (?j - 1)"
    using assms by (simp add: field_simps)
  moreover have "ilog2 a + 1 = - int (?j - 1)"
    using False jpos by (simp add: ilog2_def)
  ultimately show ?thesis
    by (simp only: pow2_neg_nat)
qed


lemma pow2_powi: "pow2 k = 2 powi k"
  by (simp add: pow2_def power_int_def power_one_over inverse_eq_divide)

lemma pow2_add: "pow2 (i + j) = pow2 i * pow2 j"
  by (simp add: pow2_powi power_int_add)

lemma pow2_mono: "i \<le> j \<Longrightarrow> pow2 i \<le> pow2 j"
  by (simp add: pow2_powi power_int_increasing)

lemma pow2_le_one: "k \<le> 0 \<Longrightarrow> pow2 k \<le> 1"
  using pow2_mono [of k 0] by (simp add: pow2_def)

lemma round_half_even_nonneg: "0 \<le> q \<Longrightarrow> 0 \<le> round_half_even q"
  by (simp add: round_half_even_def Let_def)

lemma round_half_even_le: "q \<le> of_int N \<Longrightarrow> round_half_even q \<le> N"
proof -
  assume q: "q \<le> of_int N"
  then have f: "\<lfloor>q\<rfloor> \<le> N" by (simp add: floor_le_iff)
  show ?thesis
  proof (cases "\<lfloor>q\<rfloor> = N")
    case True
    then have "q - of_int \<lfloor>q\<rfloor> \<le> 0" using q by simp
    then have "q - of_int \<lfloor>q\<rfloor> < 1 / 2" by linarith
    then show ?thesis using True by (simp add: round_half_even_def Let_def)
  next
    case False
    with f have "\<lfloor>q\<rfloor> + 1 \<le> N" by linarith
    then show ?thesis by (simp add: round_half_even_def Let_def)
  qed
qed

lemma round_at_nonneg: "0 \<le> a \<Longrightarrow> 0 \<le> round_at k a"
  by (simp add: round_at_def round_half_even_nonneg less_imp_le)

lemma scaled_below_2_53:
  assumes "0 < a" and "ilog2 a - 52 \<le> k"
  shows "a / pow2 k < 2 ^ 53"
proof -
  have "a < pow2 (ilog2 a + 1)" using assms(1) by (rule ilog2_upper)
  also have "\<dots> \<le> pow2 (k + 53)" using assms(2) by (intro pow2_mono) simp
  also have "\<dots> = pow2 k * 2 ^ 53" by (simp add: pow2_add) (simp add: pow2_def)
  finally show ?thesis by (simp add: pos_divide_less_eq mult.commute)
qed

lemma round_at_no_wrap:
  assumes a: "0 < a" and k: "ilog2 a - 52 \<le> k"
    and lt: "\<lfloor>round_at k a\<rfloor> < 2 ^ 63"
  shows "\<lfloor>round_at k a\<rfloor> + 1 < 2 ^ 63"
proof -
  let ?n = "round_half_even (a / pow2 k)"
  have "a / pow2 k \<le> of_int (2 ^ 53)"
    using scaled_below_2_53 [OF a k] by simp
  then have n: "?n \<le> 2 ^ 53" by (rule round_half_even_le)
  have n0: "0 \<le> ?n" using a by (simp add: round_half_even_nonneg less_imp_le)
  show ?thesis
  proof (cases "1 \<le> k")
    case True
    define m where "m = nat (k - 1)"
    have m: "k = int (Suc m)"
      using True by (simp add: m_def)
    have pk: "pow2 k = 2 ^ Suc m"
      unfolding m by (rule pow2_nat)
    have "round_at k a = of_int (?n * 2 ^ Suc m)"
      by (simp add: round_at_def pk)
    then have "\<lfloor>round_at k a\<rfloor> = 2 * (?n * 2 ^ m)"
      by (simp only: floor_of_int) simp
    then obtain z where z: "\<lfloor>round_at k a\<rfloor> = 2 * z" by blast
    have "2 * z < 9223372036854775808 \<Longrightarrow> 2 * z + 1 < 9223372036854775808"
      by presburger
    then show ?thesis using lt unfolding z by simp
  next
    case False
    then have "pow2 k \<le> 1" by (intro pow2_le_one) simp
    then have "round_at k a \<le> of_int ?n"
      using n0 by (simp add: round_at_def mult_left_le)
    also have "\<dots> \<le> of_int (2 ^ 53)" using n by (simp only: of_int_le_iff)
    finally have "\<lfloor>round_at k a\<rfloor> \<le> 2 ^ 53"
      by (simp add: floor_le_iff)
    then show ?thesis by simp
  qed
qed


lemma f64_ge_zero_not_negative: "f64_ge x (Finite 0) \<Longrightarrow> not_negative x"
  by (cases x) (simp_all add: f64_ge_def f64_le_def not_negative_def is_nan_def f64_val_def)

lemma sign_clear_not_negative: "\<not> f64_sign x \<Longrightarrow> not_negative x"
  by (cases x) (simp_all add: f64_sign_def not_negative_def)

lemma not_negative_sign: "not_negative x \<Longrightarrow> f64_sign x \<Longrightarrow> x = NegZero"
  by (cases x) (simp_all add: f64_sign_def not_negative_def)

lemma not_negative_mag: "not_negative x \<Longrightarrow> f64_sign x \<Longrightarrow> f64_mag x = 0"
  by (cases x) (simp_all add: f64_sign_def not_negative_def f64_mag_def)

lemma f64_mag_nonneg [simp]: "0 \<le> f64_mag x"
  by (cases x) (simp_all add: f64_mag_def)

lemma f64_round_cases:
  "f64_round s a = f64_zero s \<or> f64_round s a = f64_inf s
   \<or> (0 < a \<and> 0 < round_at (max (ilog2 a - 52) (- 1074)) a
      \<and> f64_round s a = Finite (if s then - round_at (max (ilog2 a - 52) (- 1074)) a
                               else round_at (max (ilog2 a - 52) (- 1074)) a))"
proof (cases "a \<le> 0")
  case True
  then show ?thesis by (simp add: f64_round_def)
next
  case False
  then have "0 \<le> round_at (max (ilog2 a - 52) (- 1074)) a"
    by (intro round_at_nonneg) simp
  then show ?thesis
    using False by (auto simp: f64_round_def Let_def)
qed

lemma f64_round_sign_clear: "\<not> f64_sign (f64_round False a)"
  using f64_round_cases [of False a]
  by (auto simp: f64_sign_def f64_zero_def f64_inf_def)

lemma f64_round_zero_not_negative: "a \<le> 0 \<Longrightarrow> not_negative (f64_round s a)"
  by (simp add: f64_round_def f64_zero_def not_negative_def)

lemma f64_round_not_negative: "(s \<Longrightarrow> a \<le> 0) \<Longrightarrow> not_negative (f64_round s a)"
  using f64_round_sign_clear [of a] f64_round_zero_not_negative [of a s]
  by (cases s) (auto intro: sign_clear_not_negative)

lemma f64_mul_not_negative:
  assumes "not_negative x" "not_negative y"
  shows "not_negative (f64_mul x y)"
proof -
  have s: "f64_sign x \<noteq> f64_sign y \<Longrightarrow> f64_mag x * f64_mag y \<le> 0"
    using assms not_negative_mag [of x] not_negative_mag [of y] by auto
  have i: "is_inf x \<or> is_inf y \<Longrightarrow> \<not> is_zero x \<Longrightarrow> \<not> is_zero y
      \<Longrightarrow> \<not> is_nan x \<Longrightarrow> \<not> is_nan y \<Longrightarrow> f64_sign x = f64_sign y"
    using assms
    by (cases x; cases y)
      (simp_all add: is_inf_def is_zero_def is_nan_def f64_sign_def not_negative_def)
  show ?thesis
    using s i
    by (auto simp: f64_mul_def f64_inf_def not_negative_def [of NaN] not_negative_def [of PosInf]
        intro: f64_round_not_negative)
qed




lemma f64_to_int_nonneg: "not_negative x \<Longrightarrow> f64_to_int x = Some t \<Longrightarrow> 0 \<le> t"
  by (cases x) (auto simp: not_negative_def f64_to_int_def Let_def split: if_splits)

lemma f64_of_int_sign_clear: "0 \<le> t \<Longrightarrow> \<not> f64_sign (f64_of_int t)"
  using f64_round_sign_clear by (simp add: f64_of_int_def)


lemma f64_mul_to_int_no_wrap:
  assumes x: "not_negative x" and y: "not_negative y"
    and t: "f64_to_int (f64_mul x y) = Some t"
  shows "0 \<le> t \<and> t + 1 < 2 ^ 63"
proof -
  have nn: "0 \<le> t"
    using f64_mul_not_negative [OF x y] t by (rule f64_to_int_nonneg)
  let ?s = "f64_sign x \<noteq> f64_sign y"
  let ?a = "f64_mag x * f64_mag y"
  let ?k = "max (ilog2 ?a - 52) (- 1074)"
  have m: "f64_mul x y = f64_round ?s ?a"
    using t by (auto simp: f64_mul_def f64_to_int_def f64_inf_def split: if_splits)
  consider "f64_round ?s ?a = f64_zero ?s" | "f64_round ?s ?a = f64_inf ?s"
    | "0 < ?a" "0 < round_at ?k ?a"
      "f64_round ?s ?a = Finite (if ?s then - round_at ?k ?a else round_at ?k ?a)"
    using f64_round_cases [of ?s ?a] by blast
  then show ?thesis
  proof cases
    case 1
    then have "t = 0"
      using t m by (auto simp: f64_zero_def f64_to_int_def split: if_splits)
    then show ?thesis by simp
  next
    case 2
    then show ?thesis
      using t m by (auto simp: f64_inf_def f64_to_int_def split: if_splits)
  next
    case 3
    have "\<not> ?s"
      using 3(1) x y not_negative_mag [of x] not_negative_mag [of y] by auto
    then have "f64_mul x y = Finite (round_at ?k ?a)"
      using m 3(3) by simp
    then have fl: "\<lfloor>round_at ?k ?a\<rfloor> = t" "t < 2 ^ 63"
      using t 3(2) by (auto simp: f64_to_int_def Let_def split: if_splits)
    have "\<lfloor>round_at ?k ?a\<rfloor> + 1 < 2 ^ 63"
      using 3(1) fl by (intro round_at_no_wrap) simp_all
    then show ?thesis using nn fl by simp
  qed
qed






















section \<open>Evaluation rules for the encoder and the builder\<close>

lemma be_bytes_numeral:
  "be_bytes (numeral k) = be_bytes (numeral k div 256) @ [of_nat (numeral k mod 256)]"
  "be_bytes 0 = []" "be_bytes (Suc 0) = [1]" "be_bytes 1 = [1]"
  by (simp_all add: be_bytes.simps)

lemma list_update_Cons_numeral:
  "(x # xs)[numeral k := y] = x # xs[pred_numeral k := y]"
  by (simp add: numeral_eq_Suc)

lemma Rep_Abs_address: "length bs = 20 \<Longrightarrow> Rep_address (Abs_address bs) = bs"
  by (simp add: Abs_address_inverse)

named_theorems order_eval

lemmas [order_eval] =
  be_bytes_numeral list_update_Cons_numeral Rep_Abs_address bytes_of_def bind_err_def
  CreateEIP712Hash_def FillBytes_def is_digit_def digit_value_def SetString_def go_copy_def
  address_field_def string_field_def uint8_field_def CreateOrderStructHash_def
  CreatePolymarketDomain_def CreateOrderEIP712Hash_def Sign_def hex_digit_def hex_of_bytes_def
  signature_string_def bigint_String_def new_salt_def signOrder_def CreateOrder_def
  CreateMarketOrder_def sample_primitives_def sample_signer_def sample_builder_def
  sample_client_def sample_order_args_def sample_market_args_def sample_options_def
  sample_order_data_def

lemma bind_err_Inr:
  "bind_err m f = Inr y \<longleftrightarrow> (\<exists>x. m = Inr x \<and> f x = Inr y)"
  by (cases m) (simp_all add: bind_err_def)

lemma signOrder_Inr:
  assumes "signOrder L ob orderData exchangeAddress now rnd = Inr so"
  obtains orderHash signature where
    "new_salt now rnd = Some (so_Salt so)"
    "CreateOrderEIP712Hash L orderData (so_Salt so) exchangeAddress
       (s_chainID (ob_signer ob)) = Inr orderHash"
    "Sign L (ob_signer ob) orderHash = Inr signature"
    "so_Signature so = signature_string signature"
    "so_Expiration so = od_Expiration orderData"
    "so_MakerAmount so = bigint_String (od_MakerAmount orderData)"
    "so_TakerAmount so = bigint_String (od_TakerAmount orderData)"
    "so_Side so = (if od_Side orderData = 0 then BUY else SELL)"
    "so_TokenID so = od_TokenID orderData"
  using assms
  by (auto simp: signOrder_def bind_err_Inr Let_def split: option.splits)





text \<open>
  C8.  Salts are claimed to differ between any two distinct signed orders of a signer.
  Two different orders signed within the same second, with two different draws of the
  random source, get the same salt.
\<close>

theorem C8_same_draw_counterexample:
  "map_sum id so_Salt
     (signOrder sample_primitives sample_builder (sample_order_data ''1234'')
        ''0x4bFb41d5B3570DeFd03C39a9A4D8dE6Bd8B8982E'' 1700000000 (f64_lit (1 / 2)))
     = Inr 850000000
   \<and> map_sum id so_TokenID
     (signOrder sample_primitives sample_builder (sample_order_data ''1234'')
        ''0x4bFb41d5B3570DeFd03C39a9A4D8dE6Bd8B8982E'' 1700000000 (f64_lit (1 / 2)))
     = Inr ''1234''
   \<and> map_sum id so_Salt
     (signOrder sample_primitives sample_builder (sample_order_data ''5678'')
        ''0x4bFb41d5B3570DeFd03C39a9A4D8dE6Bd8B8982E'' 1700000000
        (f64_lit (1 / 2 + 1 / 2 ^ 40)))
     = Inr 850000000
   \<and> map_sum id so_TokenID
     (signOrder sample_primitives sample_builder (sample_order_data ''5678'')
        ''0x4bFb41d5B3570DeFd03C39a9A4D8dE6Bd8B8982E'' 1700000000
        (f64_lit (1 / 2 + 1 / 2 ^ 40)))
     = Inr ''5678''"
  by (simp add: f64_eval order_eval)

text \<open>
  C8, amended.  The salt of a signed order is the integer part of the Unix time in
  seconds times the random fraction, computed in float64: it is fixed by the clock
  reading and the draw alone, whatever the order, and it is not negative when they are
  not.  So orders signed with the same reading and draw share their salt; salts are
  not unique by construction.
\<close>

theorem C8_salt_from_clock_and_draw:
  assumes "signOrder L ob orderData exchangeAddress now rnd = Inr so"
    and "signOrder L' ob' orderData' exchangeAddress' now rnd = Inr so'"
  shows "new_salt now rnd = Some (so_Salt so) \<and> so_Salt so' = so_Salt so
       \<and> (0 \<le> now \<and> f64_ge rnd (Finite 0) \<longrightarrow> 0 \<le> so_Salt so)"
proof -
  have a: "new_salt now rnd = Some (so_Salt so)"
    using assms(1) by (rule signOrder_Inr)
  have b: "new_salt now rnd = Some (so_Salt so')"
    using assms(2) by (rule signOrder_Inr)
  have "0 \<le> so_Salt so" if "0 \<le> now" "f64_ge rnd (Finite 0)"
  proof -
    have "not_negative (f64_of_int now)"
      using that(1) by (intro sign_clear_not_negative f64_of_int_sign_clear)
    moreover have "not_negative rnd"
      using that(2) by (rule f64_ge_zero_not_negative)
    ultimately show ?thesis
      using a f64_mul_to_int_no_wrap [of "f64_of_int now" rnd "so_Salt so"]
      by (simp add: new_salt_def)
  qed
  then show ?thesis
    using a b by simp
qed

theorem C8_salt_from_clock_and_draw_witness:
  "map_sum id so_Salt
     (signOrder sample_primitives sample_builder (sample_order_data ''1234'')
        ''0x4bFb41d5B3570DeFd03C39a9A4D8dE6Bd8B8982E'' 1700000000 (f64_lit (1 / 2)))
   = map_sum id so_Salt
     (signOrder sample_primitives sample_builder (sample_order_data ''5678'')
        ''0x4bFb41d5B3570DeFd03C39a9A4D8dE6Bd8B8982E'' 1700000000 (f64_lit (1 / 2)))
   \<and> (\<exists>so. signOrder sample_primitives sample_builder (sample_order_data ''1234'')
        ''0x4bFb41d5B3570DeFd03C39a9A4D8dE6Bd8B8982E'' 1700000000 (f64_lit (1 / 2)) = Inr so
        \<and> 0 \<le> so_Salt so)"
proof -
  let ?r1 = "signOrder sample_primitives sample_builder (sample_order_data ''1234'')
        ''0x4bFb41d5B3570DeFd03C39a9A4D8dE6Bd8B8982E'' 1700000000 (f64_lit (1 / 2))"
  let ?r2 = "signOrder sample_primitives sample_builder (sample_order_data ''5678'')
        ''0x4bFb41d5B3570DeFd03C39a9A4D8dE6Bd8B8982E'' 1700000000 (f64_lit (1 / 2))"
  have "\<exists>so. ?r1 = Inr so" "\<exists>so. ?r2 = Inr so"
    by (simp_all add: f64_eval order_eval)
  then obtain so1 so2 where so: "?r1 = Inr so1" "?r2 = Inr so2"
    by blast
  have g: "(0 :: int) \<le> 1700000000 \<and> f64_ge (f64_lit (1 / 2)) (Finite 0)"
    by (simp add: f64_eval)
  have "so_Salt so2 = so_Salt so1 \<and> 0 \<le> so_Salt so1"
    using C8_salt_from_clock_and_draw [OF so] g by blast
  then show ?thesis
    by (simp add: so)
qed

lemma word8_le_1: "(x :: 8 word) \<le> 1 \<Longrightarrow> x = 0 \<or> x = 1"
  by (metis le_less word_less_1)

lemma hex_of_bytes_length: "length (hex_of_bytes bs) = 2 * length bs"
  by (induction bs) (simp_all add: hex_of_bytes_def)

lemma hex_digit_in: "hex_digit d \<in> set ''0123456789abcdef''"
proof -
  have "d mod 16 < length ''0123456789abcdef''" by simp
  then show ?thesis unfolding hex_digit_def by (rule nth_mem)
qed

lemma hex_of_bytes_chars: "set (hex_of_bytes bs) \<subseteq> set ''0123456789abcdef''"
proof
  fix c
  assume "c \<in> set (hex_of_bytes bs)"
  then obtain d where "c = hex_digit d"
    by (auto simp: hex_of_bytes_def)
  then show "c \<in> set ''0123456789abcdef''"
    by (simp only: hex_digit_in)
qed

lemma Sign_Inr:
  assumes "Sign L s messageHash = Inr signature"
  obtains raw where "EcdsaSign L messageHash (s_privateKey s) = Some raw"
    and "64 < length raw"
    and "signature = (if raw ! 64 < 27 then raw[64 := raw ! 64 + 27] else raw)"
  using assms by (auto simp: Sign_def split: option.splits if_splits)

text \<open>
  C5.  When the signing primitive keeps its contract (a 65-byte signature whose last
  byte, the recovery id, is 0 or 1), a successful \<^verbatim>\<open>Sign\<close> returns 65 bytes: the
  first 64 are those of the primitive and the last is the recovery id raised by 27, so
  27 or 28; the signature string is \<open>0x\<close> followed by 130 hexadecimal characters, also
  in the signed order.
\<close>

theorem C5_recovery_id:
  assumes contract: "\<And>h raw. EcdsaSign L h (s_privateKey s) = Some raw
      \<Longrightarrow> length raw = 65 \<and> raw ! 64 \<le> 1"
  shows "(Sign L s messageHash = Inr signature \<longrightarrow>
            length signature = 65 \<and> signature ! 64 \<in> {27, 28}
            \<and> (\<exists>raw. EcdsaSign L messageHash (s_privateKey s) = Some raw
                 \<and> take 64 signature = take 64 raw
                 \<and> signature ! 64 = raw ! 64 + 27)
            \<and> length (signature_string signature) = 2 + 130
            \<and> take 2 (signature_string signature) = ''0x''
            \<and> set (drop 2 (signature_string signature)) \<subseteq> set ''0123456789abcdef'')
       \<and> (ob_signer ob = s \<and> signOrder L ob orderData exchangeAddress now rnd = Inr so \<longrightarrow>
            length (so_Signature so) = 2 + 130
            \<and> take 2 (so_Signature so) = ''0x''
            \<and> set (drop 2 (so_Signature so)) \<subseteq> set ''0123456789abcdef'')"
proof -
  have main: "length sig = 65 \<and> sig ! 64 \<in> {27, 28}
      \<and> (\<exists>raw. EcdsaSign L h (s_privateKey s) = Some raw
           \<and> take 64 sig = take 64 raw \<and> sig ! 64 = raw ! 64 + 27)
      \<and> length (signature_string sig) = 2 + 130
      \<and> take 2 (signature_string sig) = ''0x''
      \<and> set (drop 2 (signature_string sig)) \<subseteq> set ''0123456789abcdef''"
    if "Sign L s h = Inr sig" for h sig
  proof -
    from that obtain raw where raw: "EcdsaSign L h (s_privateKey s) = Some raw"
      and sig: "sig = (if raw ! 64 < 27 then raw[64 := raw ! 64 + 27] else raw)"
      by (rule Sign_Inr)
    have len: "length raw = 65" and v: "raw ! 64 = 0 \<or> raw ! 64 = 1"
      using contract [OF raw] word8_le_1 by blast+
    have sig': "sig = raw[64 := raw ! 64 + 27]"
      using v sig by auto
    have l: "length sig = 65"
      by (simp add: sig' len)
    have n: "sig ! 64 = raw ! 64 + 27"
      by (simp add: sig' len)
    have "sig ! 64 \<in> {27, 28}"
      using v n by auto
    moreover have "take 64 sig = take 64 raw"
      by (simp add: sig')
    moreover have "length (signature_string sig) = 2 + 130"
      by (simp add: signature_string_def hex_of_bytes_length l)
    moreover have "take 2 (signature_string sig) = ''0x''"
      by (simp add: signature_string_def)
    moreover have "set (drop 2 (signature_string sig)) \<subseteq> set ''0123456789abcdef''"
      using hex_of_bytes_chars [of sig] by (simp add: signature_string_def)
    ultimately show ?thesis
      using l n raw by blast
  qed
  have order: "length (so_Signature so) = 2 + 130 \<and> take 2 (so_Signature so) = ''0x''
      \<and> set (drop 2 (so_Signature so)) \<subseteq> set ''0123456789abcdef''"
    if "ob_signer ob = s" "signOrder L ob orderData exchangeAddress now rnd = Inr so"
  proof -
    from that(2) obtain orderHash sig where "Sign L (ob_signer ob) orderHash = Inr sig"
      and "so_Signature so = signature_string sig"
      by (rule signOrder_Inr)
    then show ?thesis
      using main [of orderHash sig] that(1) by simp
  qed
  show ?thesis
    using main [of messageHash signature] order by blast
qed

theorem C5_recovery_id_witness:
  "\<exists>signature. Sign sample_primitives sample_signer (replicate 32 7) = Inr signature
     \<and> length signature = 65 \<and> signature ! 64 \<in> {27, 28}
     \<and> length (signature_string signature) = 2 + 130"
proof -
  have c: "length raw = 65 \<and> raw ! 64 \<le> 1"
    if "EcdsaSign sample_primitives h (s_privateKey sample_signer) = Some raw" for h raw
    using that by (auto simp: sample_primitives_def nth_append)
  have "\<exists>signature. Sign sample_primitives sample_signer (replicate 32 7) = Inr signature"
    by (simp add: Sign_def sample_primitives_def nth_append)
  then obtain signature
    where s: "Sign sample_primitives sample_signer (replicate 32 7) = Inr signature"
    by blast
  have "length signature = 65 \<and> signature ! 64 \<in> {27, 28}
      \<and> length (signature_string signature) = 2 + 130"
    using C5_recovery_id [of sample_primitives sample_signer "replicate 32 7" signature] c s
    by blast
  then show ?thesis
    using s by blast
qed

section \<open>The encoder against the typed-data encodings\<close>






lemma Rep_address_length [simp]: "length (Rep_address a) = 20"
  using Rep_address [of a] by simp







section \<open>The level-2 signature\<close>

lemma replace_quotes_map:
  "replace_quotes str = map (\<lambda>c. if c = CHR 0x27 then CHR 0x22 else c) str"
  by (induction str) simp_all

lemma buildHMACSignature_decoded:
  assumes "Base64Decode P secret = Some key"
  shows "buildHMACSignature P secret timestamp requestArgs =
     (case ra_Body requestArgs of
        None \<Rightarrow>
          Inr (Base64Encode P (HmacSha256 P key
            (bytes_of (show_int timestamp @ ra_Method requestArgs
               @ ra_RequestPath requestArgs))))
      | Some body \<Rightarrow>
          (case JsonMarshal P body of
             None \<Rightarrow> Inl MarshalFailure
           | Some json \<Rightarrow>
               Inr (Base64Encode P (HmacSha256 P key
                 (bytes_of (show_int timestamp @ ra_Method requestArgs
                    @ ra_RequestPath requestArgs
                    @ map (\<lambda>c. if c = CHR 0x27 then CHR 0x22 else c) json))))))"
  using assms
  by (simp add: buildHMACSignature_def bind_err_def Let_def replace_quotes_map
      split: option.splits)

lemma buildHMACSignature_invalid:
  "buildHMACSignature P secret timestamp requestArgs = Inl InvalidCredentialSecret
     \<longleftrightarrow> Base64Decode P secret = None"
  by (auto simp: buildHMACSignature_def bind_err_def Let_def split: option.splits)

text \<open>
  C6.  The claim has two outcomes: \<open>InvalidCredentialSecret\<close> when the secret does not
  decode, the signature otherwise.  There is a third: with a secret that decodes and a
  body that \<^verbatim>\<open>json.Marshal\<close> rejects, the builder returns the marshalling error and no
  signature.
\<close>

theorem C6_missing_case_counterexample:
  "Base64Decode sample_codecs ''c2VjcmV0'' = Some (bytes_of ''secret'')
   \<and> buildHMACSignature sample_codecs ''c2VjcmV0'' 1700000000
       \<lparr>ra_Method = ''POST'', ra_RequestPath = ''/order'', ra_Body = Some Unmarshalable\<rparr>
     = Inl MarshalFailure
   \<and> CreateLevel2Headers sample_codecs ''0x1111111111111111111111111111111111111111''
       (Some \<lparr>ApiKey = ''key'', ApiSecret = ''c2VjcmV0'', ApiPassphrase = ''pass''\<rparr>)
       \<lparr>ra_Method = ''POST'', ra_RequestPath = ''/order'', ra_Body = Some Unmarshalable\<rparr>
       1700000000
     = Inl MarshalFailure"
  by (simp add: sample_codecs_def buildHMACSignature_def CreateLevel2Headers_def bind_err_def)

text \<open>
  C6, amended.  Level-2 header construction fails with \<open>InvalidCredentialSecret\<close>
  exactly when the secret is not valid base64url.  Otherwise, with \<open>key\<close> the decoded
  secret: without a body the signature is
  \<open>base64url(HMAC-SHA256(key, timestamp ++ method ++ path))\<close>; with a body that
  serialises to JSON it is the same over \<open>timestamp ++ method ++ path ++ body\<close>, the
  body being its JSON text with every single quote replaced by a double quote, nothing
  between the parts; with a body that does not serialise the construction fails with
  the marshalling error.  A successful construction puts the signature, the address,
  the timestamp, the key and the passphrase in the headers.
\<close>

theorem C6_hmac_signature:
  "(buildHMACSignature P secret timestamp requestArgs = Inl InvalidCredentialSecret
      \<longleftrightarrow> Base64Decode P secret = None)
   \<and> (\<forall>key. Base64Decode P secret = Some key \<longrightarrow>
        buildHMACSignature P secret timestamp requestArgs =
          (case ra_Body requestArgs of
             None \<Rightarrow>
               Inr (Base64Encode P (HmacSha256 P key
                 (bytes_of (show_int timestamp @ ra_Method requestArgs
                    @ ra_RequestPath requestArgs))))
           | Some body \<Rightarrow>
               (case JsonMarshal P body of
                  None \<Rightarrow> Inl MarshalFailure
                | Some json \<Rightarrow>
                    Inr (Base64Encode P (HmacSha256 P key
                      (bytes_of (show_int timestamp @ ra_Method requestArgs
                         @ ra_RequestPath requestArgs
                         @ map (\<lambda>c. if c = CHR 0x27 then CHR 0x22 else c) json)))))))
   \<and> (CreateLevel2Headers P addressHex (Some creds) requestArgs timestamp
        = Inl InvalidCredentialSecret \<longleftrightarrow> Base64Decode P (ApiSecret creds) = None)
   \<and> (\<forall>signature.
        buildHMACSignature P (ApiSecret creds) timestamp requestArgs = Inr signature \<longrightarrow>
        (\<exists>headers. CreateLevel2Headers P addressHex (Some creds) requestArgs timestamp
             = Inr headers
           \<and> headers PolySignature = Some signature
           \<and> headers PolyAddress = Some addressHex
           \<and> headers PolyTimestamp = Some (show_int timestamp)
           \<and> headers PolyApiKey = Some (ApiKey creds)
           \<and> headers PolyPassphrase = Some (ApiPassphrase creds)))"
proof (intro conjI allI impI)
  show "buildHMACSignature P secret timestamp requestArgs = Inl InvalidCredentialSecret
      \<longleftrightarrow> Base64Decode P secret = None"
    by (rule buildHMACSignature_invalid)
next
  fix key
  assume "Base64Decode P secret = Some key"
  then show "buildHMACSignature P secret timestamp requestArgs =
          (case ra_Body requestArgs of
             None \<Rightarrow>
               Inr (Base64Encode P (HmacSha256 P key
                 (bytes_of (show_int timestamp @ ra_Method requestArgs
                    @ ra_RequestPath requestArgs))))
           | Some body \<Rightarrow>
               (case JsonMarshal P body of
                  None \<Rightarrow> Inl MarshalFailure
                | Some json \<Rightarrow>
                    Inr (Base64Encode P (HmacSha256 P key
                      (bytes_of (show_int timestamp @ ra_Method requestArgs
                         @ ra_RequestPath requestArgs
                         @ map (\<lambda>c. if c = CHR 0x27 then CHR 0x22 else c) json))))))"
    by (rule buildHMACSignature_decoded)
next
  show "CreateLevel2Headers P addressHex (Some creds) requestArgs timestamp
        = Inl InvalidCredentialSecret \<longleftrightarrow> Base64Decode P (ApiSecret creds) = None"
    using buildHMACSignature_invalid [of P "ApiSecret creds" timestamp requestArgs]
    by (cases "buildHMACSignature P (ApiSecret creds) timestamp requestArgs")
      (simp_all add: CreateLevel2Headers_def bind_err_def)
next
  fix signature
  assume "buildHMACSignature P (ApiSecret creds) timestamp requestArgs = Inr signature"
  then show "\<exists>headers. CreateLevel2Headers P addressHex (Some creds) requestArgs timestamp
             = Inr headers
           \<and> headers PolySignature = Some signature
           \<and> headers PolyAddress = Some addressHex
           \<and> headers PolyTimestamp = Some (show_int timestamp)
           \<and> headers PolyApiKey = Some (ApiKey creds)
           \<and> headers PolyPassphrase = Some (ApiPassphrase creds)"
    by (simp add: CreateLevel2Headers_def bind_err_def PolyAddress_def PolySignature_def
        PolyTimestamp_def PolyApiKey_def PolyPassphrase_def)
qed

theorem C6_hmac_signature_witness:
  "Base64Decode sample_codecs ''c2VjcmV0'' = Some (bytes_of ''secret'')
   \<and> buildHMACSignature sample_codecs ''c2VjcmV0'' 1700000000
       \<lparr>ra_Method = ''POST'', ra_RequestPath = ''/order'',
        ra_Body = Some (JsonText [CHR 0x27, CHR ''a'', CHR 0x27])\<rparr>
     = Inr (Base64Encode sample_codecs (HmacSha256 sample_codecs (bytes_of ''secret'')
         (bytes_of (''1700000000'' @ ''POST'' @ ''/order'' @ [CHR 0x22] @ ''a'' @ [CHR 0x22]))))
   \<and> buildHMACSignature sample_codecs ''bad secret'' 1700000000
       \<lparr>ra_Method = ''POST'', ra_RequestPath = ''/order'', ra_Body = None\<rparr>
     = Inl InvalidCredentialSecret"
proof -
  let ?ra = "\<lparr>ra_Method = ''POST'', ra_RequestPath = ''/order'',
        ra_Body = Some (JsonText [CHR 0x27, CHR ''a'', CHR 0x27])\<rparr>"
  let ?rb = "\<lparr>ra_Method = ''POST'', ra_RequestPath = ''/order'',
        ra_Body = (None :: sample_body option)\<rparr>"
  have d: "Base64Decode sample_codecs ''c2VjcmV0'' = Some (bytes_of ''secret'')"
    by (simp add: sample_codecs_def)
  have n: "Base64Decode sample_codecs ''bad secret'' = None"
    by (simp add: sample_codecs_def)
  have j: "JsonMarshal sample_codecs (JsonText [CHR 0x27, CHR ''a'', CHR 0x27])
      = Some [CHR 0x27, CHR ''a'', CHR 0x27]"
    by (simp add: sample_codecs_def)
  have t: "show_int 1700000000 = ''1700000000''"
    by (simp add: show_int_def show_nat_numeral digit_char_def)
  have "buildHMACSignature sample_codecs ''c2VjcmV0'' 1700000000 ?ra
     = Inr (Base64Encode sample_codecs (HmacSha256 sample_codecs (bytes_of ''secret'')
         (bytes_of (''1700000000'' @ ''POST'' @ ''/order'' @ [CHR 0x22] @ ''a'' @ [CHR 0x22]))))"
    using C6_hmac_signature [of sample_codecs "''c2VjcmV0''" 1700000000 ?ra] d
    by (simp add: j t)
  moreover have "buildHMACSignature sample_codecs ''bad secret'' 1700000000 ?rb
     = Inl InvalidCredentialSecret"
    using C6_hmac_signature [of sample_codecs "''bad secret''" 1700000000 ?rb] n
    by blast
  ultimately show ?thesis
    using d by blast
qed

end
